theory Spec2Isabelle
  imports Complex_Main "HOL-Library.AList"
begin

section \<open>Dashboard engine: configuration\<close>

text \<open>
  The constants of \<^verbatim>\<open>core/config.js\<close> that the modelled operations read.
  Grid units, container widths and handles are integers; pixel quantities that the source
  obtains by division are rationals (exact arithmetic in place of IEEE doubles).
\<close>

definition grid_columns :: int where
  "grid_columns = 12"

definition grid_rowHeight :: int where
  "grid_rowHeight = 80"

definition grid_gap :: int where
  "grid_gap = 16"

text \<open>The breakpoint table in the order of the object literal, which is the order in
  which \<^verbatim>\<open>Object.entries\<close> enumerates it: (name, minWidth, columns).\<close>

definition grid_breakpoints :: "(string \<times> int \<times> int) list" where
  "grid_breakpoints =
     [(''xl'', 1400, 12), (''lg'', 1200, 10), (''md'', 900, 8), (''sm'', 600, 6), (''xs'', 0, 4)]"

definition widget_defaultWidth :: int where
  "widget_defaultWidth = 4"

definition widget_defaultHeight :: int where
  "widget_defaultHeight = 3"

definition storage_version :: int where
  "storage_version = 1"


section \<open>StateManager\<close>

text \<open>
  A JavaScript \<^verbatim>\<open>Map\<close> is an association list in insertion order: \<^verbatim>\<open>get\<close> is
  \<^const>\<open>map_of\<close>, \<^verbatim>\<open>set\<close> is \<^const>\<open>AList.update\<close> (replace in place, or append),
  \<^verbatim>\<open>delete\<close> is \<^const>\<open>AList.delete\<close>. The keys of a \<^verbatim>\<open>Map\<close> are pairwise distinct.
  A \<^verbatim>\<open>Set\<close> is a list without repetition, \<^verbatim>\<open>add\<close> appending a new element.
  A plain object used as a dictionary (the \<^verbatim>\<open>widgets\<close> of a serialised layout) is an
  association list of its own enumerable properties; the statements about such objects
  do not depend on the order of enumeration.

  A widget state object has the fields of the data model; a field is \<open>None\<close> when the
  object has no such property (a partial object, as passed to \<^verbatim>\<open>setWidgetState\<close>, or a
  property read that yields \<^verbatim>\<open>undefined\<close>).
\<close>

type_synonym widget_id = string

type_synonym payload = "(string \<times> string) list"

record widget_state =
  w_type :: "string option"
  w_x :: "int option"
  w_y :: "int option"
  w_width :: "int option"
  w_height :: "int option"
  w_data :: "payload option"
  w_visible :: "bool option"

text \<open>The compact serialised entry \<^verbatim>\<open>{t, x, y, w, h}\<close>.\<close>

record compact =
  c_t :: "string option"
  c_x :: "int option"
  c_y :: "int option"
  c_w :: "int option"
  c_h :: "int option"

text \<open>The value of the property \<^verbatim>\<open>v\<close> of a serialised layout: absent, a number, or
  a string (which \<^verbatim>\<open>!==\<close> never identifies with a number).\<close>

datatype jsver = VUndefined | VNum int | VStr string

record layout =
  l_v :: jsver
  l_widgets :: "(widget_id \<times> compact) list option"

datatype js_error = TypeError

datatype notification =
  WidgetNotified nat "widget_state option" bool
  | GlobalNotified nat "(widget_id \<times> widget_state) list"

text \<open>
  The store. Callbacks are identified by numbers and are opaque: calling one appends to
  \<open>notifications\<close>. \<open>nextIdleHandle\<close> is the next handle that
  \<^verbatim>\<open>requestIdleCallback\<close> returns (handles are positive, hence truthy).
\<close>

record state_manager =
  layoutState :: "(widget_id \<times> widget_state) list"
  ephemeralState :: "(widget_id \<times> widget_state) list"
  subscribers :: "(widget_id \<times> nat list) list"
  globalSubscribers :: "nat list"
  pendingSaveHandle :: "nat option"
  dirtyWidgets :: "widget_id list"
  updateCount :: nat
  nextIdleHandle :: nat
  notifications :: "notification list"

definition newStateManager :: state_manager where
  "newStateManager = \<lparr> layoutState = [], ephemeralState = [], subscribers = [],
     globalSubscribers = [], pendingSaveHandle = None, dirtyWidgets = [],
     updateCount = 0, nextIdleHandle = 1, notifications = [] \<rparr>"

definition set_add :: "'a \<Rightarrow> 'a list \<Rightarrow> 'a list" where
  "set_add a xs = (if a \<in> set xs then xs else xs @ [a])"

definition override :: "'a option \<Rightarrow> 'a option \<Rightarrow> 'a option" where
  "override cur new = (case new of None \<Rightarrow> cur | Some v \<Rightarrow> Some v)"

text \<open>The object spread \<^verbatim>\<open>{ ...currentState, ...newState }\<close>.\<close>

definition merge_state :: "widget_state \<Rightarrow> widget_state \<Rightarrow> widget_state" where
  "merge_state cur new = \<lparr>
     w_type = override (w_type cur) (w_type new),
     w_x = override (w_x cur) (w_x new),
     w_y = override (w_y cur) (w_y new),
     w_width = override (w_width cur) (w_width new),
     w_height = override (w_height cur) (w_height new),
     w_data = override (w_data cur) (w_data new),
     w_visible = override (w_visible cur) (w_visible new) \<rparr>"

definition getWidgetState :: "state_manager \<Rightarrow> widget_id \<Rightarrow> widget_state option" where
  "getWidgetState st widgetId = map_of (layoutState st) widgetId"

definition getAllWidgetStates :: "state_manager \<Rightarrow> (widget_id \<times> widget_state) list" where
  "getAllWidgetStates st = map (\<lambda>(id, state). (id, state)) (layoutState st)"

definition notifySubscribers :: "state_manager \<Rightarrow> widget_id \<Rightarrow> bool \<Rightarrow> state_manager" where
  "notifySubscribers st widgetId isEphemeral =
     (case map_of (subscribers st) widgetId of
        None \<Rightarrow> st
      | Some subs \<Rightarrow>
          (let state = (if isEphemeral then map_of (ephemeralState st) widgetId
                        else map_of (layoutState st) widgetId)
           in st\<lparr>notifications :=
                  notifications st @ map (\<lambda>cb. WidgetNotified cb state isEphemeral) subs\<rparr>))"

definition notifyGlobalSubscribers :: "state_manager \<Rightarrow> state_manager" where
  "notifyGlobalSubscribers st =
     st\<lparr>notifications :=
          notifications st @
          map (\<lambda>cb. GlobalNotified cb (getAllWidgetStates st)) (globalSubscribers st)\<rparr>"

text \<open>\<^verbatim>\<open>_scheduleSave\<close>: a pending idle callback is cancelled and a new one requested,
  so a single handle is pending afterwards.\<close>

definition scheduleSave :: "state_manager \<Rightarrow> state_manager" where
  "scheduleSave st =
     st\<lparr>pendingSaveHandle := Some (nextIdleHandle st),
        nextIdleHandle := Suc (nextIdleHandle st)\<rparr>"

definition setWidgetState ::
  "state_manager \<Rightarrow> widget_id \<Rightarrow> widget_state \<Rightarrow> bool \<Rightarrow> bool \<Rightarrow> state_manager" where
  "setWidgetState st widgetId newState ephemeral silent =
     (let st1 =
        (if ephemeral then
           st\<lparr>ephemeralState := AList.update widgetId newState (ephemeralState st)\<rparr>
         else
           (let mergedState =
                  (case map_of (layoutState st) widgetId of
                     Some currentState \<Rightarrow> merge_state currentState newState
                   | None \<Rightarrow> newState)
            in scheduleSave
                 (st\<lparr>layoutState := AList.update widgetId mergedState (layoutState st),
                     dirtyWidgets := set_add widgetId (dirtyWidgets st),
                     updateCount := Suc (updateCount st)\<rparr>)))
      in if \<not> silent then notifySubscribers st1 widgetId ephemeral else st1)"

definition commitEphemeralState :: "state_manager \<Rightarrow> widget_id \<Rightarrow> state_manager" where
  "commitEphemeralState st widgetId =
     (case map_of (ephemeralState st) widgetId of
        Some ephemeral \<Rightarrow>
          (let st1 = setWidgetState st widgetId ephemeral False False
           in st1\<lparr>ephemeralState := AList.delete widgetId (ephemeralState st1)\<rparr>)
      | None \<Rightarrow> st)"

definition getCurrentPosition ::
  "state_manager \<Rightarrow> widget_id \<Rightarrow> (int option \<times> int option) option" where
  "getCurrentPosition st widgetId =
     (case map_of (ephemeralState st) widgetId of
        Some ephemeral \<Rightarrow> Some (w_x ephemeral, w_y ephemeral)
      | None \<Rightarrow>
          (case map_of (layoutState st) widgetId of
             Some persistent \<Rightarrow> Some (w_x persistent, w_y persistent)
           | None \<Rightarrow> None))"

text \<open>The configuration object given to \<^verbatim>\<open>addWidget\<close>; \<open>None\<close> is a missing
  property, replaced by its default through \<^verbatim>\<open>??\<close>.\<close>

record widget_config =
  cfg_type :: "string option"
  cfg_x :: "int option"
  cfg_y :: "int option"
  cfg_width :: "int option"
  cfg_height :: "int option"
  cfg_data :: "payload option"

definition nullish :: "'a option \<Rightarrow> 'a \<Rightarrow> 'a" where
  "nullish v d = (case v of None \<Rightarrow> d | Some a \<Rightarrow> a)"

definition addWidget ::
  "state_manager \<Rightarrow> widget_id \<Rightarrow> widget_config \<Rightarrow> widget_state \<times> state_manager" where
  "addWidget st widgetId config =
     (let state = \<lparr>
            w_type = cfg_type config,
            w_x = Some (nullish (cfg_x config) 0),
            w_y = Some (nullish (cfg_y config) 0),
            w_width = Some (nullish (cfg_width config) widget_defaultWidth),
            w_height = Some (nullish (cfg_height config) widget_defaultHeight),
            w_data = Some (nullish (cfg_data config) []),
            w_visible = Some True \<rparr>
      in (state,
          notifyGlobalSubscribers
            (scheduleSave
               (st\<lparr>layoutState := AList.update widgetId state (layoutState st),
                   dirtyWidgets := set_add widgetId (dirtyWidgets st)\<rparr>))))"

definition removeWidget :: "state_manager \<Rightarrow> widget_id \<Rightarrow> state_manager" where
  "removeWidget st widgetId =
     notifyGlobalSubscribers
       (scheduleSave
          (st\<lparr>layoutState := AList.delete widgetId (layoutState st),
              ephemeralState := AList.delete widgetId (ephemeralState st),
              subscribers := AList.delete widgetId (subscribers st),
              dirtyWidgets := set_add widgetId (dirtyWidgets st)\<rparr>))"

definition compact_of :: "widget_state \<Rightarrow> compact" where
  "compact_of state = \<lparr> c_t = w_type state, c_x = w_x state, c_y = w_y state,
     c_w = w_width state, c_h = w_height state \<rparr>"

definition expand :: "compact \<Rightarrow> widget_state" where
  "expand c = \<lparr> w_type = c_t c, w_x = c_x c, w_y = c_y c, w_width = c_w c,
     w_height = c_h c, w_data = Some [], w_visible = Some True \<rparr>"

text \<open>
  The assignment \<^verbatim>\<open>obj[key] = value\<close> of an object \<^verbatim>\<open>value\<close> to a plain object
  \<^verbatim>\<open>obj\<close> created by \<^verbatim>\<open>{}\<close>. Every key defines or overwrites an own property,
  except \<^verbatim>\<open>__proto__\<close>: that assignment runs the setter inherited from
  \<^verbatim>\<open>Object.prototype\<close>, which replaces the prototype of \<^verbatim>\<open>obj\<close> and defines no own
  property, so that \<^verbatim>\<open>Object.entries\<close> does not list the key.
\<close>

definition obj_set :: "string \<Rightarrow> 'v \<Rightarrow> (string \<times> 'v) list \<Rightarrow> (string \<times> 'v) list" where
  "obj_set key v obj = (if key = ''__proto__'' then obj else AList.update key v obj)"

text \<open>\<^verbatim>\<open>exportLayout\<close>: the loop over the entries of the persistent map assigns
  \<^verbatim>\<open>widgets[id]\<close> one after the other.\<close>

definition exportLayout :: "state_manager \<Rightarrow> layout" where
  "exportLayout st = \<lparr>
     l_v = VNum storage_version,
     l_widgets =
       Some (foldl (\<lambda>widgets (id, state). obj_set id (compact_of state) widgets)
               [] (layoutState st)) \<rparr>"

text \<open>
  \<^verbatim>\<open>importLayout\<close>. The argument is \<open>None\<close> for a falsy \<^verbatim>\<open>data\<close>. A layout of the
  right version without a \<^verbatim>\<open>widgets\<close> property makes \<^verbatim>\<open>Object.entries\<close> throw
  after the map has been cleared.
\<close>

definition importLayout ::
  "state_manager \<Rightarrow> layout option \<Rightarrow> (js_error + bool) \<times> state_manager" where
  "importLayout st data =
     (case data of
        None \<Rightarrow> (Inr False, st)
      | Some d \<Rightarrow>
          if l_v d \<noteq> VNum storage_version then (Inr False, st)
          else
            (let st1 = st\<lparr>layoutState := []\<rparr>
             in case l_widgets d of
                  None \<Rightarrow> (Inl TypeError, st1)
                | Some entries \<Rightarrow>
                    (Inr True,
                     notifyGlobalSubscribers
                       (st1\<lparr>layoutState :=
                              foldl (\<lambda>ls (id, c). AList.update id (expand c) ls)
                                [] entries\<rparr>))))"

text \<open>\<^verbatim>\<open>discardEphemeralState\<close>.\<close>

definition discardEphemeralState :: "state_manager \<Rightarrow> widget_id \<Rightarrow> state_manager" where
  "discardEphemeralState st widgetId =
     notifySubscribers (st\<lparr>ephemeralState := AList.delete widgetId (ephemeralState st)\<rparr>)
       widgetId False"

text \<open>One iteration of the loop of \<^verbatim>\<open>batchUpdate\<close> over an update
  \<^verbatim>\<open>{widgetId, state, ephemeral}\<close>; the spread of a missing current state adds nothing.\<close>

definition batchStep ::
  "state_manager \<Rightarrow> widget_id \<times> widget_state \<times> bool \<Rightarrow> state_manager" where
  "batchStep st u =
     (case u of (widgetId, state, ephemeral) \<Rightarrow>
        if ephemeral then
          st\<lparr>ephemeralState := AList.update widgetId state (ephemeralState st)\<rparr>
        else
          st\<lparr>layoutState :=
               AList.update widgetId
                 (case map_of (layoutState st) widgetId of
                    Some currentState \<Rightarrow> merge_state currentState state
                  | None \<Rightarrow> state)
                 (layoutState st),
             dirtyWidgets := set_add widgetId (dirtyWidgets st)\<rparr>)"

definition batchUpdate ::
  "state_manager \<Rightarrow> (widget_id \<times> widget_state \<times> bool) list \<Rightarrow> state_manager" where
  "batchUpdate st updates =
     (let st1 = foldl batchStep st updates
      in notifyGlobalSubscribers (scheduleSave (st1\<lparr>updateCount := Suc (updateCount st1)\<rparr>)))"

text \<open>
  \<^verbatim>\<open>_loadFromStorage\<close>, given what \<^verbatim>\<open>JSON.parse\<close> made of the stored item (\<open>None\<close>
  when nothing is stored or the item does not parse): the entries are expanded into a
  new plain object; a missing \<^verbatim>\<open>widgets\<close> property throws inside the \<^verbatim>\<open>try\<close> block
  and yields \<^verbatim>\<open>null\<close>. \<^verbatim>\<open>init\<close> then sets every loaded entry, without a version check.
\<close>

definition loadFromStorage :: "layout option \<Rightarrow> (widget_id \<times> widget_state) list option" where
  "loadFromStorage stored =
     (case stored of
        None \<Rightarrow> None
      | Some data \<Rightarrow>
          (case l_widgets data of
             None \<Rightarrow> None
           | Some entries \<Rightarrow>
               Some (foldl (\<lambda>widgets (id, c). obj_set id (expand c) widgets) [] entries)))"

definition init :: "state_manager \<Rightarrow> layout option \<Rightarrow> state_manager" where
  "init st stored =
     (case loadFromStorage stored of
        None \<Rightarrow> st
      | Some widgets \<Rightarrow>
          st\<lparr>layoutState :=
               foldl (\<lambda>ls (id, state). AList.update id state ls) (layoutState st) widgets\<rparr>)"

text \<open>The operations that change the store, and a history: a run of them from the store
  as its constructor leaves it.\<close>

datatype store_op =
  Init "layout option"
  | SetWidgetState widget_id widget_state bool bool
  | CommitEphemeralState widget_id
  | DiscardEphemeralState widget_id
  | BatchUpdate "(widget_id \<times> widget_state \<times> bool) list"
  | AddWidget widget_id widget_config
  | RemoveWidget widget_id
  | ImportLayout "layout option"

fun apply_store_op :: "state_manager \<Rightarrow> store_op \<Rightarrow> state_manager" where
  "apply_store_op st (Init stored) = init st stored"
| "apply_store_op st (SetWidgetState widgetId newState ephemeral silent) =
     setWidgetState st widgetId newState ephemeral silent"
| "apply_store_op st (CommitEphemeralState widgetId) = commitEphemeralState st widgetId"
| "apply_store_op st (DiscardEphemeralState widgetId) = discardEphemeralState st widgetId"
| "apply_store_op st (BatchUpdate updates) = batchUpdate st updates"
| "apply_store_op st (AddWidget widgetId config) = snd (addWidget st widgetId config)"
| "apply_store_op st (RemoveWidget widgetId) = removeWidget st widgetId"
| "apply_store_op st (ImportLayout data) = snd (importLayout st data)"

definition run_store :: "state_manager \<Rightarrow> store_op list \<Rightarrow> state_manager" where
  "run_store st ops = foldl apply_store_op st ops"

text \<open>The ids that a serialised layout names.\<close>

definition layout_ids :: "layout option \<Rightarrow> widget_id list" where
  "layout_ids data =
     (case data of
        None \<Rightarrow> []
      | Some d \<Rightarrow> (case l_widgets d of None \<Rightarrow> [] | Some entries \<Rightarrow> map fst entries))"

text \<open>The operations through which an id can come to a persistent entry, and those
  through which it can come to an ephemeral one.\<close>

fun gives_entry :: "widget_id \<Rightarrow> store_op \<Rightarrow> bool" where
  "gives_entry i (Init stored) = (i \<in> set (layout_ids stored))"
| "gives_entry i (SetWidgetState widgetId newState ephemeral silent) =
     (i = widgetId \<and> \<not> ephemeral)"
| "gives_entry i (CommitEphemeralState widgetId) = (i = widgetId)"
| "gives_entry i (DiscardEphemeralState widgetId) = False"
| "gives_entry i (BatchUpdate updates) =
     (i \<in> set (map fst (filter (\<lambda>u. \<not> snd (snd u)) updates)))"
| "gives_entry i (AddWidget widgetId config) = (i = widgetId)"
| "gives_entry i (RemoveWidget widgetId) = False"
| "gives_entry i (ImportLayout data) = (i \<in> set (layout_ids data))"

fun gives_ephemeral :: "widget_id \<Rightarrow> store_op \<Rightarrow> bool" where
  "gives_ephemeral i (Init stored) = False"
| "gives_ephemeral i (SetWidgetState widgetId newState ephemeral silent) =
     (i = widgetId \<and> ephemeral)"
| "gives_ephemeral i (CommitEphemeralState widgetId) = False"
| "gives_ephemeral i (DiscardEphemeralState widgetId) = False"
| "gives_ephemeral i (BatchUpdate updates) =
     (i \<in> set (map fst (filter (\<lambda>u. snd (snd u)) updates)))"
| "gives_ephemeral i (AddWidget widgetId config) = False"
| "gives_ephemeral i (RemoveWidget widgetId) = False"
| "gives_ephemeral i (ImportLayout data) = False"

text \<open>The tuple (type, x, y, width, height) of a widget state.\<close>

definition geometry ::
  "widget_state \<Rightarrow> string option \<times> int option \<times> int option \<times> int option \<times> int option" where
  "geometry s = (w_type s, w_x s, w_y s, w_width s, w_height s)"


section \<open>WidgetRegistry\<close>

text \<open>
  The registry keeps four maps: the registered entries, the loaded implementations, the
  loads in flight, and the usage counters. An implementation is an object reference,
  identified by a number. A promise is identified by a number as well; \<open>settled\<close>
  records the outcome of the promises that have settled. \<open>loaderCalls\<close> logs every
  invocation of a loader, by type. A loader is opaque: what its promise settles to is
  given when the load finishes.
\<close>

record reg_entry =
  e_type :: string
  e_loader :: nat
  e_name :: string
  e_category :: string
  e_defaultSize :: "int \<times> int"
  e_priority :: int
  e_loaded :: bool

record reg_config =
  rc_loader :: nat
  rc_name :: "string option"
  rc_category :: "string option"
  rc_defaultSize :: "(int \<times> int) option"
  rc_priority :: "int option"

text \<open>An exported value is either falsy or a truthy reference. A module is the list of
  its exports in the order of \<^verbatim>\<open>Object.values\<close>.\<close>

datatype export_val = Falsy | Impl nat

type_synonym js_module = "(string \<times> export_val) list"

text \<open>The loader's promise rejects, or resolves to a module; \<open>Resolves None\<close> is a
  resolution with \<^verbatim>\<open>null\<close> or \<^verbatim>\<open>undefined\<close>, on which the property read throws.\<close>

datatype loader_outcome = Rejects string | Resolves "js_module option"

datatype reg_error =
  NotRegistered string
  | LoaderRejected string
  | ModuleNotObject
  | NoWidgetClass string

text \<open>The load errors of the specification: everything \<^verbatim>\<open>_loadWidget\<close> rethrows.\<close>

fun is_LoadError :: "reg_error \<Rightarrow> bool" where
  "is_LoadError (NotRegistered t) = False"
| "is_LoadError (LoaderRejected r) = True"
| "is_LoadError ModuleNotObject = True"
| "is_LoadError (NoWidgetClass t) = True"

text \<open>The promise an \<^verbatim>\<open>async\<close> call returns: rejected at once, resolved at once, or
  following the promise with the given number.\<close>

datatype get_result = Rejected reg_error | Resolved nat | Awaits nat

record widget_registry =
  registry :: "(string \<times> reg_entry) list"
  loadedModules :: "(string \<times> nat) list"
  loadingPromises :: "(string \<times> nat) list"
  usageStats :: "(string \<times> nat) list"
  loaderCalls :: "string list"
  settled :: "(nat \<times> (reg_error + nat)) list"
  nextPromise :: nat

definition emptyRegistry :: widget_registry where
  "emptyRegistry = \<lparr> registry = [], loadedModules = [], loadingPromises = [],
     usageStats = [], loaderCalls = [], settled = [], nextPromise = 0 \<rparr>"

text \<open>\<^verbatim>\<open>a || b\<close> on strings: the empty string is falsy.\<close>

definition str_or :: "string option \<Rightarrow> string \<Rightarrow> string" where
  "str_or a b = (case a of None \<Rightarrow> b | Some s \<Rightarrow> if s = [] then b else s)"

definition register :: "widget_registry \<Rightarrow> string \<Rightarrow> reg_config \<Rightarrow> widget_registry" where
  "register st type config =
     (if map_of (registry st) type \<noteq> None then st
      else st\<lparr>registry :=
                AList.update type
                  \<lparr> e_type = type, e_loader = rc_loader config,
                    e_name = str_or (rc_name config) type,
                    e_category = str_or (rc_category config) ''general'',
                    e_defaultSize = nullish (rc_defaultSize config) (4, 3),
                    e_priority = nullish (rc_priority config) 100,
                    e_loaded = False \<rparr>
                  (registry st),
              usageStats := AList.update type 0 (usageStats st)\<rparr>)"

definition has :: "widget_registry \<Rightarrow> string \<Rightarrow> bool" where
  "has st type = (map_of (registry st) type \<noteq> None)"

definition isLoaded :: "widget_registry \<Rightarrow> string \<Rightarrow> bool" where
  "isLoaded st type = (map_of (loadedModules st) type \<noteq> None)"


definition js_or :: "export_val \<Rightarrow> export_val \<Rightarrow> export_val" where
  "js_or a b = (case a of Impl i \<Rightarrow> Impl i | Falsy \<Rightarrow> b)"

definition module_prop :: "js_module \<Rightarrow> string \<Rightarrow> export_val" where
  "module_prop m k = (case map_of m k of Some v \<Rightarrow> v | None \<Rightarrow> Falsy)"

definition first_value :: "js_module \<Rightarrow> export_val" where
  "first_value m = (case m of [] \<Rightarrow> Falsy | kv # rest \<Rightarrow> snd kv)"

text \<open>\<^verbatim>\<open>_loadWidget\<close>, from the point where the loader's promise has settled.\<close>

definition loadWidget :: "string \<Rightarrow> loader_outcome \<Rightarrow> reg_error + nat" where
  "loadWidget type outcome =
     (case outcome of
        Rejects r \<Rightarrow> Inl (LoaderRejected r)
      | Resolves None \<Rightarrow> Inl ModuleNotObject
      | Resolves (Some m) \<Rightarrow>
          (case js_or (js_or (module_prop m ''default'') (module_prop m type)) (first_value m) of
             Falsy \<Rightarrow> Inl (NoWidgetClass type)
           | Impl i \<Rightarrow> Inr i))"

text \<open>\<^verbatim>\<open>get\<close>, up to its \<^verbatim>\<open>await\<close>: the synchronous part of the call.\<close>

definition get :: "widget_registry \<Rightarrow> string \<Rightarrow> get_result \<times> widget_registry" where
  "get st type =
     (case map_of (registry st) type of
        None \<Rightarrow> (Rejected (NotRegistered type), st)
      | Some config \<Rightarrow>
          (let st1 = st\<lparr>usageStats :=
                         AList.update type
                           (nullish (map_of (usageStats st) type) 0 + 1) (usageStats st)\<rparr>
           in case map_of (loadedModules st1) type of
                Some impl \<Rightarrow> (Resolved impl, st1)
              | None \<Rightarrow>
                  (case map_of (loadingPromises st1) type of
                     Some p \<Rightarrow> (Awaits p, st1)
                   | None \<Rightarrow>
                       (let p = nextPromise st1
                        in (Awaits p,
                            st1\<lparr>loaderCalls := loaderCalls st1 @ [type],
                                loadingPromises := AList.update type p (loadingPromises st1),
                                nextPromise := Suc p\<rparr>)))))"

text \<open>
  The rest of \<^verbatim>\<open>get\<close>, run when the loader's promise of the load in flight for
  \<open>type\<close> settles: the load promise settles with the result of \<^verbatim>\<open>_loadWidget\<close>, a
  success is cached and the entry marked loaded, and the \<^verbatim>\<open>finally\<close> block removes the
  load from the loads in flight.
\<close>

definition loadFinished :: "widget_registry \<Rightarrow> string \<Rightarrow> loader_outcome \<Rightarrow> widget_registry" where
  "loadFinished st type outcome =
     (case map_of (loadingPromises st) type of
        None \<Rightarrow> st
      | Some p \<Rightarrow>
          (let result = loadWidget type outcome;
               st1 = st\<lparr>settled := AList.update p result (settled st)\<rparr>;
               st2 = (case result of
                        Inr WidgetClass \<Rightarrow>
                          st1\<lparr>loadedModules := AList.update type WidgetClass (loadedModules st1),
                              registry := map (\<lambda>(t, c). if t = type then (t, c\<lparr>e_loaded := True\<rparr>)
                                                       else (t, c)) (registry st1)\<rparr>
                      | Inl e \<Rightarrow> st1)
           in st2\<lparr>loadingPromises := AList.delete type (loadingPromises st2)\<rparr>))"

definition unload :: "widget_registry \<Rightarrow> string \<Rightarrow> widget_registry" where
  "unload st type =
     st\<lparr>loadedModules := AList.delete type (loadedModules st),
        registry := map (\<lambda>(t, c). if t = type then (t, c\<lparr>e_loaded := False\<rparr>) else (t, c))
                      (registry st)\<rparr>"

text \<open>What a caller that holds the result of a call observes: \<open>None\<close> while the promise
  is pending.\<close>

definition outcome_of :: "widget_registry \<Rightarrow> get_result \<Rightarrow> (reg_error + nat) option" where
  "outcome_of st r =
     (case r of
        Rejected e \<Rightarrow> Some (Inl e)
      | Resolved i \<Rightarrow> Some (Inr i)
      | Awaits p \<Rightarrow> map_of (settled st) p)"




section \<open>DragDropManager\<close>

text \<open>
  Pixel coordinates are rationals. The environment is part of the state: the bounding
  rectangle of the container, the queue of animation-frame callbacks requested and not
  yet run (each with its handle and the variables its closure captured), and the next
  handle \<^verbatim>\<open>requestAnimationFrame\<close> returns (handles are positive, hence truthy).
  \<^verbatim>\<open>Math.round\<close> is \<^const>\<open>round\<close>: the nearest integer, a tie going up.
\<close>

record element =
  el_widgetId :: "widget_id option"
  el_left :: rat
  el_top :: rat
  el_offsetWidth :: rat
  el_offsetHeight :: rat

record rect =
  r_left :: rat
  r_top :: rat
  r_width :: rat
  r_height :: rat

record drag_manager =
  d_stateManager :: state_manager
  isDragging :: bool
  dragWidget :: "widget_id option"
  dragElement :: "element option"
  startPos :: "rat \<times> rat"
  currentPos :: "rat \<times> rat"
  offset :: "rat \<times> rat"
  rafId :: "nat option"
  gridSize :: "rat \<times> rat"
  frameCount :: nat
  elementTransform :: "(rat \<times> rat) option"
  placeholderPos :: "rat \<times> rat"
  containerRect :: rect
  frameQueue :: "(nat \<times> rat \<times> rat) list"
  nextRafHandle :: nat

text \<open>A partial state object holding a grid position only.\<close>

definition xy_state :: "int \<Rightarrow> int \<Rightarrow> widget_state" where
  "xy_state gx gy = \<lparr> w_type = None, w_x = Some gx, w_y = Some gy, w_width = None,
     w_height = None, w_data = None, w_visible = None \<rparr>"

definition calculateGridSize :: "drag_manager \<Rightarrow> int \<Rightarrow> drag_manager" where
  "calculateGridSize d containerWidth =
     d\<lparr>gridSize :=
         ((of_int containerWidth - of_int (grid_gap * (grid_columns - 1))) / of_int grid_columns
            + of_int grid_gap,
          of_int (grid_rowHeight + grid_gap))\<rparr>"

definition startDrag :: "drag_manager \<Rightarrow> element \<Rightarrow> rat \<Rightarrow> rat \<Rightarrow> drag_manager" where
  "startDrag d el clientX clientY =
     (case el_widgetId el of
        None \<Rightarrow> d
      | Some widgetId \<Rightarrow>
          if widgetId = [] then d
          else
            (let start = (el_left el - r_left (containerRect d),
                          el_top el - r_top (containerRect d))
             in d\<lparr>isDragging := True,
                  dragElement := Some el,
                  dragWidget := Some widgetId,
                  startPos := start,
                  offset := (clientX - el_left el, clientY - el_top el),
                  currentPos := start,
                  placeholderPos := start\<rparr>))"

text \<open>\<^verbatim>\<open>_updateDrag\<close>: while a frame callback is pending the call returns at once;
  otherwise it requests a callback whose closure holds the coordinates of this call.\<close>

definition updateDrag :: "drag_manager \<Rightarrow> rat \<Rightarrow> rat \<Rightarrow> drag_manager" where
  "updateDrag d clientX clientY =
     (if \<not> isDragging d \<or> dragElement d = None then d
      else if rafId d \<noteq> None then d
      else d\<lparr>rafId := Some (nextRafHandle d),
             frameQueue := frameQueue d @ [(nextRafHandle d, clientX, clientY)],
             nextRafHandle := Suc (nextRafHandle d)\<rparr>)"

text \<open>The grid cell the frame callback computes from the captured pointer position:
  the snapped and clamped pixel position, and its cell.\<close>

definition snapPos :: "drag_manager \<Rightarrow> element \<Rightarrow> rat \<Rightarrow> rat \<Rightarrow> rat \<times> rat" where
  "snapPos d el clientX clientY =
     (let newX = clientX - r_left (containerRect d) - fst (offset d);
          newY = clientY - r_top (containerRect d) - snd (offset d);
          snappedX = of_int (round (newX / fst (gridSize d))) * fst (gridSize d);
          snappedY = of_int (round (newY / snd (gridSize d))) * snd (gridSize d);
          maxX = r_width (containerRect d) - el_offsetWidth el;
          maxY = r_height (containerRect d) - el_offsetHeight el
      in (max 0 (min snappedX maxX), max 0 (min snappedY maxY)))"

definition gridCell :: "drag_manager \<Rightarrow> rat \<times> rat \<Rightarrow> int \<times> int" where
  "gridCell d pos = (round (fst pos / fst (gridSize d)), round (snd pos / snd (gridSize d)))"

text \<open>The callback given to \<^verbatim>\<open>requestAnimationFrame\<close>, with the captured
  \<^verbatim>\<open>clientX\<close> and \<^verbatim>\<open>clientY\<close>. Without a dragged element the property read throws
  after the handle has been reset.\<close>

definition frameCallback :: "drag_manager \<Rightarrow> rat \<Rightarrow> rat \<Rightarrow> drag_manager" where
  "frameCallback d clientX clientY =
     (let d1 = d\<lparr>rafId := None\<rparr>
      in case (dragElement d1, dragWidget d1) of
           (Some el, Some widgetId) \<Rightarrow>
             (let pos = snapPos d1 el clientX clientY;
                  cell = gridCell d1 pos
              in d1\<lparr>currentPos := pos,
                    elementTransform := Some (fst pos - fst (startPos d1), snd pos - snd (startPos d1)),
                    placeholderPos := pos,
                    d_stateManager :=
                      setWidgetState (d_stateManager d1) widgetId
                        (xy_state (fst cell) (snd cell)) True True,
                    frameCount := Suc (frameCount d1)\<rparr>)
         | _ \<Rightarrow> d1)"

text \<open>One animation frame: the browser runs the queued callbacks in order.\<close>

definition animationFrame :: "drag_manager \<Rightarrow> drag_manager" where
  "animationFrame d =
     foldl (\<lambda>s (h, cx, cy). frameCallback s cx cy) (d\<lparr>frameQueue := []\<rparr>) (frameQueue d)"

text \<open>\<^verbatim>\<open>_endDrag\<close>, up to the frame it requests for the settle animation.\<close>

definition endDrag :: "drag_manager \<Rightarrow> drag_manager" where
  "endDrag d =
     (if \<not> isDragging d then d
      else
        (let d1 = (case rafId d of
                     Some h \<Rightarrow> d\<lparr>frameQueue := filter (\<lambda>(h', cx, cy). h' \<noteq> h) (frameQueue d),
                                 rafId := None\<rparr>
                   | None \<Rightarrow> d);
             sm = (case dragWidget d1 of
                     Some widgetId \<Rightarrow> commitEphemeralState (d_stateManager d1) widgetId
                   | None \<Rightarrow> d_stateManager d1)
         in d1\<lparr>d_stateManager := sm, isDragging := False, dragElement := None,
               dragWidget := None\<rparr>))"

text \<open>A sequence of pointer moves, in the order of arrival.\<close>

definition pointerMoves :: "drag_manager \<Rightarrow> (rat \<times> rat) list \<Rightarrow> drag_manager" where
  "pointerMoves d moves = foldl (\<lambda>s (cx, cy). updateDrag s cx cy) d moves"


section \<open>LayoutManager\<close>

text \<open>
  The orchestrator's state as far as placement, breakpoints and reflow use it: the
  store, the active breakpoint, the grid metrics, and the container's width (read from
  the DOM). Containers, widget instances and their mounting are outside the model.
\<close>

record grid_metrics =
  gm_columns :: int
  gm_columnWidth :: rat
  gm_rowHeight :: int
  gm_gap :: int
  gm_containerWidth :: int

record layout_manager =
  lm_stateManager :: state_manager
  currentBreakpoint :: "string option"
  gridMetrics :: "grid_metrics option"
  containerOffsetWidth :: int
  resizeCount :: nat















text \<open>The loop of \<^verbatim>\<open>_updateGridMetrics\<close> over the breakpoint table: every entry whose
  threshold the width reaches overwrites the choice of the entries before it.\<close>

definition selectBreakpoint :: "int \<Rightarrow> string" where
  "selectBreakpoint containerWidth =
     foldl (\<lambda>current (name, minWidth, columns).
              if containerWidth \<ge> minWidth then name else current)
       ''xs'' grid_breakpoints"

definition breakpointColumns :: "string \<Rightarrow> int option" where
  "breakpointColumns name = map_option snd (map_of grid_breakpoints name)"

definition updateGridMetrics :: "layout_manager \<Rightarrow> layout_manager" where
  "updateGridMetrics lm =
     (let containerWidth = containerOffsetWidth lm;
          current = selectBreakpoint containerWidth
      in case breakpointColumns current of
           None \<Rightarrow> lm
         | Some columns \<Rightarrow>
             lm\<lparr>currentBreakpoint := Some current,
                gridMetrics := Some \<lparr>
                  gm_columns = columns,
                  gm_columnWidth =
                    (of_int containerWidth - of_int (grid_gap * (columns - 1))) / of_int columns,
                  gm_rowHeight = grid_rowHeight,
                  gm_gap = grid_gap,
                  gm_containerWidth = containerWidth \<rparr>\<rparr>)"

text \<open>The breakpoint rule in the words of the specification: among the breakpoints
  whose threshold the width meets or exceeds, the one with the largest threshold.\<close>

definition spec_breakpoint :: "int \<Rightarrow> (string \<times> int \<times> int) option" where
  "spec_breakpoint containerWidth =
     (case filter (\<lambda>(name, minWidth, columns). containerWidth \<ge> minWidth) grid_breakpoints of
        [] \<Rightarrow> None
      | b # bs \<Rightarrow>
          Some (foldl (\<lambda>best c. if fst (snd c) > fst (snd best) then c else best) b bs))"

text \<open>A partial state object holding \<^verbatim>\<open>x\<close> only.\<close>

definition x_state :: "int \<Rightarrow> widget_state" where
  "x_state newX = \<lparr> w_type = None, w_x = Some newX, w_y = None, w_width = None,
     w_height = None, w_data = None, w_visible = None \<rparr>"

text \<open>One iteration of the loop of \<^verbatim>\<open>_reflowLayout\<close>. A comparison with a missing
  \<^verbatim>\<open>x\<close> or \<^verbatim>\<open>width\<close> is false.\<close>

definition reflowWidget :: "int \<Rightarrow> state_manager \<Rightarrow> widget_id \<times> widget_state \<Rightarrow> state_manager" where
  "reflowWidget columns sm entry =
     (case (w_x (snd entry), w_width (snd entry)) of
        (Some x, Some width) \<Rightarrow>
          if x + width > columns then
            setWidgetState sm (fst entry) (x_state (max 0 (columns - width))) False True
          else sm
      | _ \<Rightarrow> sm)"

text \<open>\<^verbatim>\<open>_reflowLayout\<close>: the loop runs over the snapshot \<^verbatim>\<open>getAllWidgetStates()\<close> took
  before it.\<close>

definition reflowLayout :: "layout_manager \<Rightarrow> layout_manager" where
  "reflowLayout lm =
     (case gridMetrics lm of
        None \<Rightarrow> lm
      | Some gm \<Rightarrow>
          lm\<lparr>lm_stateManager :=
               foldl (reflowWidget (gm_columns gm)) (lm_stateManager lm)
                 (getAllWidgetStates (lm_stateManager lm))\<rparr>)"

text \<open>\<^verbatim>\<open>_onContainerResize\<close>, after the container has taken the width \<open>newWidth\<close>.\<close>

definition onContainerResize :: "layout_manager \<Rightarrow> int \<Rightarrow> layout_manager" where
  "onContainerResize lm newWidth =
     (let oldBreakpoint = currentBreakpoint lm;
          lm1 = updateGridMetrics (lm\<lparr>containerOffsetWidth := newWidth\<rparr>);
          lm2 = (if currentBreakpoint lm1 \<noteq> oldBreakpoint then reflowLayout lm1 else lm1)
      in lm2\<lparr>resizeCount := Suc (resizeCount lm2)\<rparr>)"


section \<open>Predicates of the properties and example states\<close>

text \<open>A state \<open>s\<close> reflects a partial state \<open>e\<close> when every property that \<open>e\<close> has
  is a property of \<open>s\<close> with the same value.\<close>

definition reflects :: "widget_state \<Rightarrow> widget_state \<Rightarrow> bool" where
  "reflects e s =
     ((w_type e \<noteq> None \<longrightarrow> w_type s = w_type e) \<and>
      (w_x e \<noteq> None \<longrightarrow> w_x s = w_x e) \<and>
      (w_y e \<noteq> None \<longrightarrow> w_y s = w_y e) \<and>
      (w_width e \<noteq> None \<longrightarrow> w_width s = w_width e) \<and>
      (w_height e \<noteq> None \<longrightarrow> w_height s = w_height e) \<and>
      (w_data e \<noteq> None \<longrightarrow> w_data s = w_data e) \<and>
      (w_visible e \<noteq> None \<longrightarrow> w_visible s = w_visible e))"

definition example_store :: state_manager where
  "example_store =
     snd (addWidget
            (snd (addWidget newStateManager ''w1''
                    \<lparr> cfg_type = Some ''kpi'', cfg_x = Some 0, cfg_y = Some 0,
                      cfg_width = Some 3, cfg_height = Some 2,
                      cfg_data = Some [(''label'', ''Budget'')] \<rparr>))
            ''w2''
            \<lparr> cfg_type = Some ''line-chart'', cfg_x = Some 3, cfg_y = Some 0,
              cfg_width = Some 6, cfg_height = None, cfg_data = None \<rparr>)"

text \<open>The example store during a drag of \<^verbatim>\<open>w1\<close> that has reached the cell (5, 2).\<close>

definition example_dragged_store :: state_manager where
  "example_dragged_store = setWidgetState example_store ''w1'' (xy_state 5 2) True True"

text \<open>A store whose only widget was added under the id \<^verbatim>\<open>__proto__\<close>.\<close>

definition example_proto_store :: state_manager where
  "example_proto_store =
     snd (addWidget newStateManager ''__proto__''
            \<lparr> cfg_type = Some ''kpi'', cfg_x = Some 2, cfg_y = Some 1,
              cfg_width = Some 3, cfg_height = Some 2, cfg_data = None \<rparr>)"

text \<open>A history: a widget is added, dragged to the cell (5, 2) and dropped; and a
  history in which a persistent write names an id that was never given to
  \<^verbatim>\<open>addWidget\<close>.\<close>

definition example_history :: "store_op list" where
  "example_history =
     [AddWidget ''w1''
        \<lparr> cfg_type = Some ''kpi'', cfg_x = Some 0, cfg_y = Some 0,
          cfg_width = Some 3, cfg_height = Some 2, cfg_data = None \<rparr>,
      SetWidgetState ''w1'' (xy_state 5 2) True True,
      CommitEphemeralState ''w1'']"

definition example_ghost_history :: "store_op list" where
  "example_ghost_history = [SetWidgetState ''ghost'' (x_state 1) False True]"

definition example_old_layout :: layout where
  "example_old_layout = \<lparr> l_v = VNum 0,
     l_widgets = Some [(''w9'', \<lparr> c_t = Some ''gauge'', c_x = Some 1, c_y = Some 1,
                                c_w = Some 2, c_h = Some 2 \<rparr>)] \<rparr>"

text \<open>A load for \<open>type\<close> is in flight with the promise \<open>p\<close>.\<close>

definition pending_load :: "widget_registry \<Rightarrow> string \<Rightarrow> nat \<Rightarrow> bool" where
  "pending_load st type p =
     (map_of (registry st) type \<noteq> None \<and> map_of (loadedModules st) type = None \<and>
      map_of (loadingPromises st) type = Some p)"

text \<open>The promise of the load that serves the next call for \<open>type\<close>: the one in
  flight, or the one the call creates.\<close>

definition load_promise :: "widget_registry \<Rightarrow> string \<Rightarrow> nat" where
  "load_promise st type =
     (case map_of (loadingPromises st) type of Some p \<Rightarrow> p | None \<Rightarrow> nextPromise st)"

text \<open>The operations on the registry, and a run of them from the registry as it is when
  the module has been evaluated.\<close>

datatype reg_op =
  Register string reg_config
  | Get string
  | LoadFinished string loader_outcome
  | Unload string

fun apply_op :: "widget_registry \<Rightarrow> reg_op \<Rightarrow> widget_registry" where
  "apply_op st (Register t c) = register st t c"
| "apply_op st (Get t) = snd (get st t)"
| "apply_op st (LoadFinished t outcome) = loadFinished st t outcome"
| "apply_op st (Unload t) = unload st t"

definition run_ops :: "reg_op list \<Rightarrow> widget_registry" where
  "run_ops ops = foldl apply_op emptyRegistry ops"

fun registers :: "string \<Rightarrow> reg_op \<Rightarrow> bool" where
  "registers t (Register t' c) = (t = t')"
| "registers t (Get t') = False"
| "registers t (LoadFinished t' outcome) = False"
| "registers t (Unload t') = False"

definition example_registry :: widget_registry where
  "example_registry =
     register
       (register emptyRegistry ''kpi''
          \<lparr> rc_loader = 0, rc_name = Some ''KPI'', rc_category = Some ''metrics'',
            rc_defaultSize = Some (3, 2), rc_priority = Some 1 \<rparr>)
       ''bar-chart''
       \<lparr> rc_loader = 1, rc_name = None, rc_category = Some ''charts'',
         rc_defaultSize = Some (6, 3), rc_priority = None \<rparr>"

text \<open>A drag manager as its constructor leaves it, on a container with the given
  bounding rectangle.\<close>

definition newDragDropManager :: "state_manager \<Rightarrow> rect \<Rightarrow> drag_manager" where
  "newDragDropManager sm r = \<lparr> d_stateManager = sm, isDragging = False, dragWidget = None,
     dragElement = None, startPos = (0, 0), currentPos = (0, 0), offset = (0, 0),
     rafId = None, gridSize = (0, 0), frameCount = 0, elementTransform = None,
     placeholderPos = (0, 0), containerRect = r, frameQueue = [], nextRafHandle = 1 \<rparr>"

definition example_element :: element where
  "example_element = \<lparr> el_widgetId = Some ''w1'', el_left = 0, el_top = 0,
     el_offsetWidth = 272, el_offsetHeight = 176 \<rparr>"

text \<open>A drag of \<^verbatim>\<open>w1\<close> started at the pointer position (10, 10) in a container 1136
  pixels wide, where a grid cell measures 96 by 96 pixels.\<close>

definition example_drag :: drag_manager where
  "example_drag =
     startDrag
       (calculateGridSize
          (newDragDropManager newStateManager
             \<lparr> r_left = 0, r_top = 0, r_width = 1136, r_height = 800 \<rparr>) 1136)
       example_element 10 10"

text \<open>What one iteration of the reflow loop makes of a widget state.\<close>

definition reflowed :: "int \<Rightarrow> widget_state \<Rightarrow> widget_state" where
  "reflowed columns s =
     (case (w_x s, w_width s) of
        (Some x, Some width) \<Rightarrow>
          if x + width > columns then s\<lparr>w_x := Some (max 0 (columns - width))\<rparr> else s
      | _ \<Rightarrow> s)"


text \<open>An orchestrator with an empty store on a container 1500 pixels wide, before its
  grid metrics have been computed.\<close>

definition example_layout :: layout_manager where
  "example_layout = \<lparr> lm_stateManager = newStateManager, currentBreakpoint = None,
     gridMetrics = None, containerOffsetWidth = 1500, resizeCount = 0 \<rparr>"








text \<open>An orchestrator with grid metrics of four columns, whose store holds a widget of
  width 6 at x = 0 and a widget of width 8 at x = -3.\<close>

definition example_narrow_layout :: layout_manager where
  "example_narrow_layout = \<lparr>
     lm_stateManager =
       snd (addWidget
              (snd (addWidget newStateManager ''w1''
                      \<lparr> cfg_type = Some ''bar-chart'', cfg_x = Some 0, cfg_y = Some 0,
                        cfg_width = Some 6, cfg_height = Some 3, cfg_data = None \<rparr>))
              ''w2''
              \<lparr> cfg_type = Some ''line-chart'', cfg_x = Some (- 3), cfg_y = Some 3,
                cfg_width = Some 8, cfg_height = Some 2, cfg_data = None \<rparr>),
     currentBreakpoint = Some ''xs'',
     gridMetrics = Some \<lparr> gm_columns = 4, gm_columnWidth = 113, gm_rowHeight = 80,
       gm_gap = 16, gm_containerWidth = 500 \<rparr>,
     containerOffsetWidth = 500, resizeCount = 0 \<rparr>"

text \<open>An orchestrator whose store holds one widget at x = 10 of width 4, placed under
  twelve columns, with grid metrics of six columns.\<close>

definition example_reflow_layout :: layout_manager where
  "example_reflow_layout = \<lparr>
     lm_stateManager =
       snd (addWidget newStateManager ''w1''
              \<lparr> cfg_type = Some ''gauge'', cfg_x = Some 10, cfg_y = Some 0,
                cfg_width = Some 4, cfg_height = Some 3, cfg_data = None \<rparr>),
     currentBreakpoint = Some ''sm'',
     gridMetrics = Some \<lparr> gm_columns = 6, gm_columnWidth = 310 / 3, gm_rowHeight = 80,
       gm_gap = 16, gm_containerWidth = 700 \<rparr>,
     containerOffsetWidth = 700, resizeCount = 0 \<rparr>"


section \<open>StateManager: proofs\<close>

lemma foldl_update_fresh:
  "distinct (map fst xs) \<Longrightarrow> set (map fst xs) \<inter> set (map fst acc) = {} \<Longrightarrow>
   foldl (\<lambda>al (k, v). AList.update k (f v) al) acc xs = acc @ map (\<lambda>(k, v). (k, f v)) xs"
proof (induction xs arbitrary: acc)
  case Nil
  then show ?case by simp
next
  case (Cons p xs)
  obtain k v where p: "p = (k, v)" by (cases p)
  from Cons.prems p have knew: "k \<notin> fst ` set acc" by auto
  have upd: "AList.update k (f v) acc = acc @ [(k, f v)]"
    using knew by (induction acc) auto
  have "foldl (\<lambda>al (k, v). AList.update k (f v) al) (acc @ [(k, f v)]) xs
        = (acc @ [(k, f v)]) @ map (\<lambda>(k, v). (k, f v)) xs"
    using Cons.prems p by (intro Cons.IH) auto
  then show ?case using p upd by simp
qed

lemma foldl_update_distinct:
  "distinct (map fst xs) \<Longrightarrow>
   foldl (\<lambda>al (k, v). AList.update k (f v) al) [] xs = map (\<lambda>(k, v). (k, f v)) xs"
  using foldl_update_fresh [of xs "[]" f] by simp

text \<open>The keys of the persistent map stay pairwise distinct under every operation of
  the store.\<close>

lemma foldl_update_keys_distinct:
  "distinct (map fst acc) \<Longrightarrow>
   distinct (map fst (foldl (\<lambda>al (k, v). AList.update k (f v) al) acc xs))"
  by (induction xs arbitrary: acc) (auto simp: distinct_update)

lemma layout_keys_distinct:
  "distinct (map fst (layoutState newStateManager))"
  "distinct (map fst (layoutState st)) \<Longrightarrow>
     distinct (map fst (layoutState (setWidgetState st X s ephemeral silent)))"
  "distinct (map fst (layoutState st)) \<Longrightarrow>
     distinct (map fst (layoutState (commitEphemeralState st X)))"
  "distinct (map fst (layoutState st)) \<Longrightarrow>
     distinct (map fst (layoutState (snd (addWidget st X config))))"
  "distinct (map fst (layoutState st)) \<Longrightarrow>
     distinct (map fst (layoutState (removeWidget st X)))"
  "distinct (map fst (layoutState st)) \<Longrightarrow>
     distinct (map fst (layoutState (snd (importLayout st data))))"
  by (auto simp: newStateManager_def setWidgetState_def commitEphemeralState_def addWidget_def
      removeWidget_def importLayout_def notifySubscribers_def notifyGlobalSubscribers_def
      scheduleSave_def Let_def distinct_update distinct_delete foldl_update_keys_distinct
      split: option.splits)

lemma foldl_set_keys_distinct:
  "distinct (map fst acc) \<Longrightarrow>
   distinct (map fst (foldl (\<lambda>ls (id, state). AList.update id state ls) acc xs))"
  by (induction xs arbitrary: acc) (auto simp: distinct_update)

lemma batchStep_keys_distinct:
  "distinct (map fst (layoutState st)) \<Longrightarrow>
   distinct (map fst (layoutState (foldl batchStep st updates)))"
  by (induction updates arbitrary: st) (auto simp: batchStep_def distinct_update)

lemma layout_keys_distinct_more:
  "distinct (map fst (layoutState st)) \<Longrightarrow>
     distinct (map fst (layoutState (discardEphemeralState st X)))"
  "distinct (map fst (layoutState st)) \<Longrightarrow>
     distinct (map fst (layoutState (batchUpdate st updates)))"
  "distinct (map fst (layoutState st)) \<Longrightarrow>
     distinct (map fst (layoutState (init st stored)))"
  by (auto simp: discardEphemeralState_def batchUpdate_def init_def notifySubscribers_def
      notifyGlobalSubscribers_def scheduleSave_def Let_def batchStep_keys_distinct
      foldl_set_keys_distinct split: option.splits)

lemma geometry_expand_compact: "geometry (expand (compact_of s)) = geometry s"
  by (simp add: geometry_def expand_def compact_of_def)

lemma roundtrip_map_of:
  "map_option geometry
     (map_of (map (\<lambda>(k, v). (k, expand v)) (map (\<lambda>(k, v). (k, compact_of v)) xs)) k)
   = map_option geometry (map_of xs k)"
  by (induction xs) (auto simp: geometry_expand_compact)

lemma reflects_merge: "reflects e (merge_state cur e)"
  by (auto simp: reflects_def merge_state_def override_def)

lemma reflects_refl: "reflects e e"
  by (simp add: reflects_def)

lemma commit_some:
  assumes "map_of (ephemeralState st) X = Some e"
  shows "getWidgetState (commitEphemeralState st X) X =
           Some (case getWidgetState st X of Some cur \<Rightarrow> merge_state cur e | None \<Rightarrow> e)"
    and "map_of (ephemeralState (commitEphemeralState st X)) X = None"
  using assms
  by (simp_all add: commitEphemeralState_def setWidgetState_def getWidgetState_def Let_def
      scheduleSave_def notifySubscribers_def update_conv' delete_conv' split: option.splits)

lemma commit_none: "map_of (ephemeralState st) X = None \<Longrightarrow> commitEphemeralState st X = st"
  by (simp add: commitEphemeralState_def)

lemma example_store_layout:
  "layoutState example_store =
     [(''w1'', \<lparr> w_type = Some ''kpi'', w_x = Some 0, w_y = Some 0, w_width = Some 3,
                w_height = Some 2, w_data = Some [(''label'', ''Budget'')],
                w_visible = Some True \<rparr>),
      (''w2'', \<lparr> w_type = Some ''line-chart'', w_x = Some 3, w_y = Some 0, w_width = Some 6,
                w_height = Some 3, w_data = Some [], w_visible = Some True \<rparr>)]"
  by (simp add: example_store_def addWidget_def newStateManager_def notifyGlobalSubscribers_def
      scheduleSave_def nullish_def widget_defaultHeight_def Let_def)

lemma example_store_ephemeral: "ephemeralState example_store = []"
  by (simp add: example_store_def addWidget_def newStateManager_def notifyGlobalSubscribers_def
      scheduleSave_def Let_def)

lemma example_dragged_store_maps:
  "layoutState example_dragged_store = layoutState example_store"
  "ephemeralState example_dragged_store = [(''w1'', xy_state 5 2)]"
  by (simp_all add: example_dragged_store_def setWidgetState_def example_store_ephemeral)

text \<open>
  C4. A write with the ephemeral option leaves the whole persistent map, the dirty set and
  the pending persistence schedule (the pending handle and the handle counter) as they
  were, whether silent or not. \<^verbatim>\<open>commitEphemeralState(X)\<close> with an ephemeral entry \<open>e\<close>
  makes the persistent state of \<open>X\<close> the merge of its former state with \<open>e\<close> (or \<open>e\<close>
  itself when \<open>X\<close> had none), which has every value of \<open>e\<close>, and removes the ephemeral
  entry; without an ephemeral entry the store is unchanged.
\<close>

theorem ephemeral_isolation_and_commit:
  "layoutState (setWidgetState st X s True silent) = layoutState st
   \<and> dirtyWidgets (setWidgetState st X s True silent) = dirtyWidgets st
   \<and> pendingSaveHandle (setWidgetState st X s True silent) = pendingSaveHandle st
   \<and> nextIdleHandle (setWidgetState st X s True silent) = nextIdleHandle st
   \<and> (map_of (ephemeralState st) X = Some e \<longrightarrow>
        getWidgetState (commitEphemeralState st X) X =
          Some (case getWidgetState st X of Some cur \<Rightarrow> merge_state cur e | None \<Rightarrow> e)
        \<and> reflects e (case getWidgetState st X of Some cur \<Rightarrow> merge_state cur e | None \<Rightarrow> e)
        \<and> map_of (ephemeralState (commitEphemeralState st X)) X = None)
   \<and> (map_of (ephemeralState st) X = None \<longrightarrow> commitEphemeralState st X = st)"
proof -
  have a: "layoutState (setWidgetState st X s True silent) = layoutState st
     \<and> dirtyWidgets (setWidgetState st X s True silent) = dirtyWidgets st
     \<and> pendingSaveHandle (setWidgetState st X s True silent) = pendingSaveHandle st
     \<and> nextIdleHandle (setWidgetState st X s True silent) = nextIdleHandle st"
    by (simp add: setWidgetState_def notifySubscribers_def Let_def split: option.splits)
  have b: "reflects e (case getWidgetState st X of Some cur \<Rightarrow> merge_state cur e | None \<Rightarrow> e)"
    by (simp add: reflects_merge reflects_refl split: option.splits)
  show ?thesis
    using a b commit_some [of st X e] commit_none [of st X] by blast
qed

theorem ephemeral_isolation_and_commit_witness:
  "map_of (ephemeralState example_dragged_store) ''w1'' = Some (xy_state 5 2)
   \<and> getWidgetState example_dragged_store ''w1'' = getWidgetState example_store ''w1''
   \<and> map_option (\<lambda>s. (w_x s, w_y s, w_width s))
        (getWidgetState (commitEphemeralState example_dragged_store ''w1'') ''w1'')
       = Some (Some 5, Some 2, Some 3)
   \<and> map_of (ephemeralState (commitEphemeralState example_dragged_store ''w1'')) ''w1'' = None
   \<and> map_of (ephemeralState example_store) ''w1'' = None
   \<and> commitEphemeralState example_store ''w1'' = example_store"
proof -
  have h: "map_of (ephemeralState example_dragged_store) ''w1'' = Some (xy_state 5 2)"
    by (simp add: example_dragged_store_maps)
  have n: "map_of (ephemeralState example_store) ''w1'' = None"
    by (simp add: example_store_ephemeral)
  have g: "getWidgetState example_dragged_store ''w1'' = getWidgetState example_store ''w1''"
    using ephemeral_isolation_and_commit [of example_store "''w1''" "xy_state 5 2" True]
    by (simp add: getWidgetState_def example_dragged_store_def)
  have c: "getWidgetState (commitEphemeralState example_dragged_store ''w1'') ''w1'' =
          Some (case getWidgetState example_dragged_store ''w1'' of
                  Some cur \<Rightarrow> merge_state cur (xy_state 5 2) | None \<Rightarrow> xy_state 5 2)"
    and d: "map_of (ephemeralState (commitEphemeralState example_dragged_store ''w1'')) ''w1'' = None"
    using ephemeral_isolation_and_commit
      [of example_dragged_store "''w1''" "xy_state 5 2" True "xy_state 5 2"] h
    by simp_all
  have k: "commitEphemeralState example_store ''w1'' = example_store"
    using ephemeral_isolation_and_commit [of example_store "''w1''" "xy_state 5 2" True] n
    by simp
  have v: "map_option (\<lambda>s. (w_x s, w_y s, w_width s))
        (getWidgetState (commitEphemeralState example_dragged_store ''w1'') ''w1'')
       = Some (Some 5, Some 2, Some 3)"
    unfolding c
    by (simp add: getWidgetState_def example_dragged_store_maps example_store_layout
        merge_state_def xy_state_def override_def)
  show ?thesis using h n g d k v by simp
qed

lemma foldl_obj_set_ordinary:
  "''__proto__'' \<notin> fst ` set xs \<Longrightarrow>
   foldl (\<lambda>obj (k, v). obj_set k (f v) obj) acc xs
     = foldl (\<lambda>al (k, v). AList.update k (f v) al) acc xs"
  by (induction xs arbitrary: acc) (auto simp: obj_set_def)

text \<open>For a store with pairwise distinct keys none of which is \<^verbatim>\<open>__proto__\<close>, the
  import of the exported layout into a fresh store succeeds and every id has the same
  (type, x, y, width, height) in the new store as in the original one.\<close>

lemma roundtrip_ordinary_ids:
  assumes "distinct (map fst (layoutState st))" "''__proto__'' \<notin> fst ` set (layoutState st)"
  shows "fst (importLayout newStateManager (Some (exportLayout st))) = Inr True
    \<and> (\<forall>widgetId.
         map_option geometry
           (getWidgetState (snd (importLayout newStateManager (Some (exportLayout st)))) widgetId)
         = map_option geometry (getWidgetState st widgetId))"
proof -
  let ?exp = "map (\<lambda>(k, v). (k, compact_of v)) (layoutState st)"
  have e: "exportLayout st = \<lparr> l_v = VNum storage_version, l_widgets = Some ?exp \<rparr>"
    using assms by (simp add: exportLayout_def foldl_obj_set_ordinary foldl_update_distinct)
  have d: "distinct (map fst ?exp)"
    using assms by (simp add: comp_def case_prod_unfold)
  have i: "foldl (\<lambda>ls (id, c). AList.update id (expand c) ls) [] ?exp
             = map (\<lambda>(k, v). (k, expand v)) ?exp"
    using d by (rule foldl_update_distinct)
  have r: "importLayout newStateManager (Some (exportLayout st)) =
     (Inr True, notifyGlobalSubscribers
        (newStateManager\<lparr>layoutState := map (\<lambda>(k, v). (k, expand v)) ?exp\<rparr>))"
    unfolding e importLayout_def using i by simp
  have l: "layoutState (snd (importLayout newStateManager (Some (exportLayout st))))
      = map (\<lambda>(k, v). (k, expand v)) ?exp"
    unfolding r by (simp add: notifyGlobalSubscribers_def)
  show ?thesis
    unfolding getWidgetState_def l
    by (intro conjI allI roundtrip_map_of) (simp add: r)
qed

text \<open>
  C5, at a store that holds a widget under the id \<^verbatim>\<open>__proto__\<close>. The store has the
  widget with its type and geometry; \<^verbatim>\<open>exportLayout\<close> assigns it to
  \<^verbatim>\<open>widgets['__proto__']\<close> of a plain object, which defines no own property, so the
  exported layout has no entry; the import of that layout into a fresh store succeeds
  and yields a store without the widget.
\<close>

theorem roundtrip_loses_proto_id:
  "getWidgetState example_proto_store ''__proto__''
     = Some \<lparr> w_type = Some ''kpi'', w_x = Some 2, w_y = Some 1, w_width = Some 3,
              w_height = Some 2, w_data = Some [], w_visible = Some True \<rparr>
   \<and> exportLayout example_proto_store = \<lparr> l_v = VNum storage_version, l_widgets = Some [] \<rparr>
   \<and> fst (importLayout newStateManager (Some (exportLayout example_proto_store))) = Inr True
   \<and> getWidgetState (snd (importLayout newStateManager (Some (exportLayout example_proto_store))))
        ''__proto__'' = None"
proof -
  have l: "layoutState example_proto_store =
     [(''__proto__'', \<lparr> w_type = Some ''kpi'', w_x = Some 2, w_y = Some 1, w_width = Some 3,
              w_height = Some 2, w_data = Some [], w_visible = Some True \<rparr>)]"
    by (simp add: example_proto_store_def addWidget_def newStateManager_def
        notifyGlobalSubscribers_def scheduleSave_def nullish_def Let_def)
  have e: "exportLayout example_proto_store
             = \<lparr> l_v = VNum storage_version, l_widgets = Some [] \<rparr>"
    by (simp add: exportLayout_def l obj_set_def)
  show ?thesis
    unfolding e
    by (simp add: getWidgetState_def l importLayout_def notifyGlobalSubscribers_def
        newStateManager_def)
qed

text \<open>
  C8. \<^verbatim>\<open>importLayout\<close> of an absent layout, or of a layout whose version is not the
  configured one (a missing version and a version given as a string included), returns
  \<^verbatim>\<open>false\<close> as a value, without an exception, and leaves the whole store, the widget
  state map in particular, as it was.
\<close>

theorem import_version_mismatch:
  "importLayout st None = (Inr False, st)
   \<and> (l_v d \<noteq> VNum storage_version \<longrightarrow> importLayout st (Some d) = (Inr False, st))"
  by (simp add: importLayout_def)

theorem import_version_mismatch_witness:
  "l_v example_old_layout \<noteq> VNum storage_version
   \<and> importLayout example_store (Some example_old_layout) = (Inr False, example_store)
   \<and> importLayout example_store None = (Inr False, example_store)"
proof -
  have h: "l_v example_old_layout \<noteq> VNum storage_version"
    by (simp add: example_old_layout_def storage_version_def)
  show ?thesis
    using h import_version_mismatch [of example_store example_old_layout] by simp
qed

lemma map_of_foldl_update_other:
  "i \<notin> fst ` set xs \<Longrightarrow>
   map_of (foldl (\<lambda>al (k, v). AList.update k (f v) al) acc xs) i = map_of acc i"
  by (induction xs arbitrary: acc) (auto simp: update_conv')

lemma update_keys_subset: "fst ` set (AList.update k v al) \<subseteq> insert k (fst ` set al)"
  by (induction al) auto

lemma obj_set_keys:
  "fst ` set (foldl (\<lambda>obj (k, v). obj_set k (f v) obj) acc xs) \<subseteq> fst ` set acc \<union> fst ` set xs"
proof (induction xs arbitrary: acc)
  case Nil
  then show ?case by simp
next
  case (Cons p xs)
  obtain k v where p: "p = (k, v)" by (cases p)
  have "fst ` set (obj_set k (f v) acc) \<subseteq> insert k (fst ` set acc)"
    using update_keys_subset [of k "f v" acc] by (auto simp: obj_set_def)
  with Cons.IH [of "obj_set k (f v) acc"] show ?case
    by (auto simp: p)
qed

lemma batchStep_layout_other:
  "i \<notin> set (map fst (filter (\<lambda>u. \<not> snd (snd u)) updates)) \<Longrightarrow>
   map_of (layoutState (foldl batchStep st updates)) i = map_of (layoutState st) i"
  by (induction updates arbitrary: st) (auto simp: batchStep_def update_conv')

lemma batchStep_ephemeral_other:
  "i \<notin> set (map fst (filter (\<lambda>u. snd (snd u)) updates)) \<Longrightarrow>
   map_of (ephemeralState (foldl batchStep st updates)) i = map_of (ephemeralState st) i"
  by (induction updates arbitrary: st) (auto simp: batchStep_def update_conv')

lemma init_layout_other:
  assumes "i \<notin> set (layout_ids stored)"
  shows "map_of (layoutState (init st stored)) i = map_of (layoutState st) i"
proof (cases "loadFromStorage stored")
  case None
  then show ?thesis by (simp add: init_def)
next
  case (Some widgets)
  then obtain d entries where s: "stored = Some d" "l_widgets d = Some entries"
    and w: "widgets = foldl (\<lambda>obj (k, c). obj_set k (expand c) obj) [] entries"
    by (auto simp: loadFromStorage_def split: option.splits)
  have "fst ` set widgets \<subseteq> fst ` set entries"
    unfolding w using obj_set_keys [of expand "[]" entries] by simp
  then have "i \<notin> fst ` set widgets"
    using assms s by (auto simp: layout_ids_def)
  then have "map_of (foldl (\<lambda>al (k, v). AList.update k (id v) al) (layoutState st) widgets) i
               = map_of (layoutState st) i"
    by (rule map_of_foldl_update_other)
  then show ?thesis using Some by (simp add: init_def)
qed

lemma import_layout_none:
  assumes "i \<notin> set (layout_ids data)" "map_of (layoutState st) i = None"
  shows "map_of (layoutState (snd (importLayout st data))) i = None"
proof (cases data)
  case None
  then show ?thesis using assms by (simp add: importLayout_def)
next
  case (Some d)
  show ?thesis
  proof (cases "l_widgets d")
    case None
    then show ?thesis using Some assms by (simp add: importLayout_def)
  next
    case e: (Some entries)
    have "i \<notin> fst ` set entries" using assms Some e by (simp add: layout_ids_def)
    then have "map_of (foldl (\<lambda>al (k, v). AList.update k (expand v) al) [] entries) i = None"
      using map_of_foldl_update_other [of i entries expand "[]"] by simp
    then show ?thesis
      using Some e assms by (simp add: importLayout_def notifyGlobalSubscribers_def)
  qed
qed

lemma step_keeps_no_entry:
  assumes "map_of (layoutState st) i = None" "\<not> gives_entry i op"
  shows "map_of (layoutState (apply_store_op st op)) i = None"
proof (cases op)
  case (Init stored)
  then show ?thesis using assms by (simp add: init_layout_other)
next
  case (SetWidgetState w s ephemeral silent)
  then show ?thesis
    using assms
    by (auto simp: setWidgetState_def notifySubscribers_def scheduleSave_def Let_def
        update_conv' split: option.splits)
next
  case (CommitEphemeralState w)
  then show ?thesis
    using assms
    by (auto simp: commitEphemeralState_def setWidgetState_def notifySubscribers_def
        scheduleSave_def Let_def update_conv' split: option.splits)
next
  case (DiscardEphemeralState w)
  then show ?thesis
    using assms
    by (auto simp: discardEphemeralState_def notifySubscribers_def Let_def split: option.splits)
next
  case (BatchUpdate updates)
  then show ?thesis
    using assms batchStep_layout_other [of i updates st]
    by (simp add: batchUpdate_def notifyGlobalSubscribers_def scheduleSave_def Let_def)
next
  case (AddWidget w c)
  then show ?thesis
    using assms
    by (auto simp: addWidget_def notifyGlobalSubscribers_def scheduleSave_def Let_def update_conv')
next
  case (RemoveWidget w)
  then show ?thesis
    using assms
    by (auto simp: removeWidget_def notifyGlobalSubscribers_def scheduleSave_def delete_conv')
next
  case (ImportLayout data)
  then show ?thesis using assms by (simp add: import_layout_none)
qed

lemma step_keeps_no_ephemeral:
  assumes "map_of (ephemeralState st) i = None" "\<not> gives_ephemeral i op"
  shows "map_of (ephemeralState (apply_store_op st op)) i = None"
proof (cases op)
  case (Init stored)
  then show ?thesis using assms by (simp add: init_def split: option.splits)
next
  case (SetWidgetState w s ephemeral silent)
  then show ?thesis
    using assms
    by (auto simp: setWidgetState_def notifySubscribers_def scheduleSave_def Let_def
        update_conv' split: option.splits)
next
  case (CommitEphemeralState w)
  then show ?thesis
    using assms
    by (auto simp: commitEphemeralState_def setWidgetState_def notifySubscribers_def
        scheduleSave_def Let_def delete_conv' split: option.splits)
next
  case (DiscardEphemeralState w)
  then show ?thesis
    using assms
    by (auto simp: discardEphemeralState_def notifySubscribers_def Let_def delete_conv'
        split: option.splits)
next
  case (BatchUpdate updates)
  then show ?thesis
    using assms batchStep_ephemeral_other [of i updates st]
    by (simp add: batchUpdate_def notifyGlobalSubscribers_def scheduleSave_def Let_def)
next
  case (AddWidget w c)
  then show ?thesis
    using assms
    by (auto simp: addWidget_def notifyGlobalSubscribers_def scheduleSave_def Let_def)
next
  case (RemoveWidget w)
  then show ?thesis
    using assms
    by (auto simp: removeWidget_def notifyGlobalSubscribers_def scheduleSave_def delete_conv')
next
  case (ImportLayout data)
  then show ?thesis
    using assms
    by (auto simp: importLayout_def notifyGlobalSubscribers_def Let_def split: option.splits)
qed

lemma run_keeps_no_entry:
  "map_of (layoutState st) i = None \<Longrightarrow> \<forall>op \<in> set ops. \<not> gives_entry i op \<Longrightarrow>
   map_of (layoutState (run_store st ops)) i = None"
  unfolding run_store_def
  by (induction ops arbitrary: st) (auto simp: step_keeps_no_entry)

lemma run_keeps_no_ephemeral:
  "map_of (ephemeralState st) i = None \<Longrightarrow> \<forall>op \<in> set ops. \<not> gives_ephemeral i op \<Longrightarrow>
   map_of (ephemeralState (run_store st ops)) i = None"
  unfolding run_store_def
  by (induction ops arbitrary: st) (auto simp: step_keeps_no_ephemeral)

lemma removeWidget_clears:
  "map_of (layoutState (removeWidget st i)) i = None"
  "map_of (ephemeralState (removeWidget st i)) i = None"
  by (simp_all add: removeWidget_def notifyGlobalSubscribers_def scheduleSave_def delete_conv')

text \<open>
  C10, as the code has it. An id comes to a persistent entry not only through
  \<^verbatim>\<open>addWidget\<close> but also through a persistent \<^verbatim>\<open>setWidgetState\<close> or \<^verbatim>\<open>batchUpdate\<close>
  entry, \<^verbatim>\<open>commitEphemeralState\<close>, \<^verbatim>\<open>importLayout\<close> and \<^verbatim>\<open>init\<close>. After any
  history of store operations from the fresh store in which none of them names the id,
  and after any history that follows a \<^verbatim>\<open>removeWidget\<close> of the id in any store and in
  which none of them names the id, \<^verbatim>\<open>getWidgetState\<close> returns \<^verbatim>\<open>null\<close>. If moreover no
  ephemeral write names the id, \<^verbatim>\<open>getCurrentPosition\<close> returns \<^verbatim>\<open>null\<close> too; and it
  returns \<^verbatim>\<open>null\<close> in every store in which the id has neither an ephemeral nor a
  persistent entry. Both lookups return a value in every store.
\<close>

theorem unknown_id_lookup_history:
  "((\<forall>op \<in> set ops. \<not> gives_entry i op) \<longrightarrow>
       getWidgetState (run_store newStateManager ops) i = None
       \<and> getWidgetState (run_store (removeWidget st i) ops) i = None)
   \<and> ((\<forall>op \<in> set ops. \<not> gives_entry i op \<and> \<not> gives_ephemeral i op) \<longrightarrow>
       getCurrentPosition (run_store newStateManager ops) i = None
       \<and> getCurrentPosition (run_store (removeWidget st i) ops) i = None)
   \<and> (map_of (layoutState st) i = None \<and> map_of (ephemeralState st) i = None \<longrightarrow>
       getCurrentPosition st i = None)"
proof (intro conjI impI)
  assume h: "\<forall>op \<in> set ops. \<not> gives_entry i op"
  show "getWidgetState (run_store newStateManager ops) i = None"
    unfolding getWidgetState_def
    using h by (intro run_keeps_no_entry) (simp_all add: newStateManager_def)
  show "getWidgetState (run_store (removeWidget st i) ops) i = None"
    unfolding getWidgetState_def
    using h by (intro run_keeps_no_entry removeWidget_clears)
next
  assume h: "\<forall>op \<in> set ops. \<not> gives_entry i op \<and> \<not> gives_ephemeral i op"
  have f: "map_of (layoutState (run_store newStateManager ops)) i = None"
    "map_of (ephemeralState (run_store newStateManager ops)) i = None"
    using h
    by (intro run_keeps_no_entry run_keeps_no_ephemeral; simp add: newStateManager_def)+
  have r: "map_of (layoutState (run_store (removeWidget st i) ops)) i = None"
    "map_of (ephemeralState (run_store (removeWidget st i) ops)) i = None"
    using h
    by (intro run_keeps_no_entry run_keeps_no_ephemeral removeWidget_clears; simp)+
  show "getCurrentPosition (run_store newStateManager ops) i = None"
    by (simp add: getCurrentPosition_def f)
  show "getCurrentPosition (run_store (removeWidget st i) ops) i = None"
    by (simp add: getCurrentPosition_def r)
next
  assume "map_of (layoutState st) i = None \<and> map_of (ephemeralState st) i = None"
  then show "getCurrentPosition st i = None"
    by (simp add: getCurrentPosition_def)
qed

theorem unknown_id_lookup_history_witness:
  "getWidgetState (run_store newStateManager example_history) ''w7'' = None
   \<and> getCurrentPosition (run_store newStateManager example_history) ''w7'' = None
   \<and> getWidgetState
        (run_store (removeWidget (run_store newStateManager example_history) ''w1'')
           example_ghost_history) ''w1'' = None
   \<and> getCurrentPosition
        (run_store (removeWidget (run_store newStateManager example_history) ''w1'')
           example_ghost_history) ''w1'' = None
   \<and> map_option w_x (getWidgetState (run_store newStateManager example_history) ''w1'')
       = Some (Some 5)"
proof -
  have a: "\<forall>op \<in> set example_history.
             \<not> gives_entry ''w7'' op \<and> \<not> gives_ephemeral ''w7'' op"
    by (simp add: example_history_def)
  have b: "\<forall>op \<in> set example_ghost_history.
             \<not> gives_entry ''w1'' op \<and> \<not> gives_ephemeral ''w1'' op"
    by (simp add: example_ghost_history_def)
  have c: "map_option w_x (getWidgetState (run_store newStateManager example_history) ''w1'')
       = Some (Some 5)"
    by (simp add: run_store_def example_history_def getWidgetState_def addWidget_def
        setWidgetState_def commitEphemeralState_def newStateManager_def
        notifyGlobalSubscribers_def notifySubscribers_def scheduleSave_def nullish_def
        set_add_def merge_state_def override_def xy_state_def Let_def)
  show ?thesis
    using a b c
      unknown_id_lookup_history [of example_history "''w7''" newStateManager]
      unknown_id_lookup_history
        [of example_ghost_history "''w1''" "run_store newStateManager example_history"]
    by simp
qed

text \<open>
  C10, as stated, fails: in the history that consists of one persistent, silent
  \<^verbatim>\<open>setWidgetState\<close> for the id \<^verbatim>\<open>ghost\<close>, the id has never been added, and
  \<^verbatim>\<open>getWidgetState\<close> returns the state that the write created.
\<close>

theorem never_added_counterexample:
  "getWidgetState (run_store newStateManager example_ghost_history) ''ghost''
     = Some (x_state 1)
   \<and> getCurrentPosition (run_store newStateManager example_ghost_history) ''ghost''
     = Some (Some 1, None)"
  by (simp add: run_store_def example_ghost_history_def getWidgetState_def
      getCurrentPosition_def setWidgetState_def newStateManager_def scheduleSave_def
      x_state_def Let_def)


section \<open>WidgetRegistry: proofs\<close>

lemma get_pending:
  assumes "pending_load st t p"
  shows "fst (get st t) = Awaits p" and "pending_load (snd (get st t)) t p"
    and "loaderCalls (snd (get st t)) = loaderCalls st"
  using assms by (auto simp: pending_load_def get_def Let_def split: option.splits)


lemma get_starts_load:
  assumes "has st t" "\<not> isLoaded st t" "map_of (loadingPromises st) t = None"
  shows "fst (get st t) = Awaits (nextPromise st)"
    and "pending_load (snd (get st t)) t (nextPromise st)"
    and "loaderCalls (snd (get st t)) = loaderCalls st @ [t]"
  using assms
  by (auto simp: has_def isLoaded_def pending_load_def get_def Let_def update_conv'
      split: option.splits)

lemma get_first:
  assumes "has st t" "\<not> isLoaded st t"
  shows "fst (get st t) = Awaits (load_promise st t)
    \<and> pending_load (snd (get st t)) t (load_promise st t)
    \<and> loaderCalls (snd (get st t)) =
           loaderCalls st @ (if map_of (loadingPromises st) t = None then [t] else [])"
proof (cases "map_of (loadingPromises st) t")
  case None
  from get_starts_load [OF assms None] None show ?thesis
    by (simp add: load_promise_def)
next
  case (Some p)
  then have "pending_load st t p"
    using assms by (simp add: pending_load_def has_def isLoaded_def)
  from get_pending [OF this] Some show ?thesis
    by (simp add: load_promise_def)
qed

lemma loadFinished_settles:
  "pending_load st t p \<Longrightarrow>
   outcome_of (loadFinished st t outcome) (Awaits p) = Some (loadWidget t outcome)"
  by (auto simp: pending_load_def loadFinished_def outcome_of_def Let_def update_conv'
      split: sum.splits)

lemma map_of_mark:
  "map_of (map (\<lambda>(t, c). if t = type then (t, f c) else (t, c)) xs) k =
   map_option (\<lambda>c. if k = type then f c else c) (map_of xs k)"
  by (induction xs) auto

lemma has_apply_op: "has (apply_op st op) t = (has st t \<or> registers t op)"
proof (cases op)
  case (Register t' c)
  then show ?thesis by (auto simp: has_def register_def update_conv')
next
  case (Get t')
  then show ?thesis by (auto simp: has_def get_def Let_def split: option.splits)
next
  case (LoadFinished t' outcome)
  then show ?thesis
    by (auto simp: has_def loadFinished_def Let_def map_of_mark split: option.splits sum.splits)
next
  case (Unload t')
  then show ?thesis by (auto simp: has_def unload_def map_of_mark)
qed

lemma has_foldl: "has (foldl apply_op st ops) t = (has st t \<or> (\<exists>op \<in> set ops. registers t op))"
  by (induction ops arbitrary: st) (auto simp: has_apply_op)

lemma has_run_ops: "has (run_ops ops) t = (\<exists>op \<in> set ops. registers t op)"
  by (simp add: run_ops_def has_foldl) (simp add: has_def emptyRegistry_def)


lemma example_registry_has: "has example_registry ''kpi''" "has example_registry ''bar-chart''"
  "\<not> isLoaded example_registry ''kpi''" "\<not> has example_registry ''gauge''"
  by (simp_all add: has_def isLoaded_def example_registry_def register_def emptyRegistry_def)



lemma loadWidget_error: "loadWidget t outcome = Inl e \<Longrightarrow> is_LoadError e"
  by (auto simp: loadWidget_def split: loader_outcome.splits option.splits export_val.splits)

lemma loadWidget_fails_iff:
  "(\<exists>e. loadWidget t outcome = Inl e) =
   (case outcome of
      Rejects r \<Rightarrow> True
    | Resolves None \<Rightarrow> True
    | Resolves (Some m) \<Rightarrow>
        module_prop m ''default'' = Falsy \<and> module_prop m t = Falsy \<and> first_value m = Falsy)"
  by (auto simp: loadWidget_def js_or_def
      split: loader_outcome.splits option.splits export_val.splits)

lemma get_rejects_iff:
  "(fst (get st t) = Rejected (NotRegistered t)) = (\<not> has st t)"
  "(\<exists>e. fst (get st t) = Rejected e) = (\<not> has st t)"
  by (auto simp: get_def has_def Let_def split: option.splits)

text \<open>
  C9. After any run of registry operations, \<^verbatim>\<open>get(type)\<close> is rejected with
  NotRegistered exactly when no operation of the run registered the type, and that is
  the only rejection the call itself produces. For a registered type without a cached
  implementation the call's result is the result of \<^verbatim>\<open>_loadWidget\<close> for the
  load: an error exactly when the loader rejects, resolves to no object, or resolves to
  a module in which the default export, the export named after the type and the first
  exported value are all falsy; and every such error is a load error.
\<close>

theorem get_error_cases:
  "(fst (get (run_ops ops) type) = Rejected (NotRegistered type))
      = (\<not> (\<exists>op \<in> set ops. registers type op))
   \<and> ((\<exists>e. fst (get st type) = Rejected e) = (\<not> has st type))
   \<and> ((fst (get st type) = Rejected (NotRegistered type)) = (\<not> has st type))
   \<and> (has st type \<and> \<not> isLoaded st type \<longrightarrow>
        outcome_of (loadFinished (snd (get st type)) type outcome) (fst (get st type))
          = Some (loadWidget type outcome))
   \<and> ((\<exists>e. loadWidget type outcome = Inl e) =
        (case outcome of
           Rejects r \<Rightarrow> True
         | Resolves None \<Rightarrow> True
         | Resolves (Some m) \<Rightarrow>
             module_prop m ''default'' = Falsy \<and> module_prop m type = Falsy
             \<and> first_value m = Falsy))
   \<and> (\<forall>e. loadWidget type outcome = Inl e \<longrightarrow> is_LoadError e)"
proof -
  have a: "(fst (get (run_ops ops) type) = Rejected (NotRegistered type))
      = (\<not> (\<exists>op \<in> set ops. registers type op))"
    by (simp only: get_rejects_iff has_run_ops)
  have b: "has st type \<and> \<not> isLoaded st type \<longrightarrow>
        outcome_of (loadFinished (snd (get st type)) type outcome) (fst (get st type))
          = Some (loadWidget type outcome)"
    using get_first [of st type] loadFinished_settles by auto
  show ?thesis
    using a b get_rejects_iff [of st type] loadWidget_fails_iff [of type outcome]
      loadWidget_error [of type outcome]
    by blast
qed

theorem get_error_cases_witness:
  "fst (get (run_ops [Register ''kpi'' \<lparr> rc_loader = 0, rc_name = None, rc_category = None,
                         rc_defaultSize = None, rc_priority = None \<rparr>, Get ''kpi'']) ''gauge'')
     = Rejected (NotRegistered ''gauge'')
   \<and> fst (get (run_ops [Register ''kpi'' \<lparr> rc_loader = 0, rc_name = None, rc_category = None,
                         rc_defaultSize = None, rc_priority = None \<rparr>, Get ''kpi'']) ''kpi'')
     \<noteq> Rejected (NotRegistered ''kpi'')
   \<and> has example_registry ''kpi'' \<and> \<not> isLoaded example_registry ''kpi''
   \<and> outcome_of (loadFinished (snd (get example_registry ''kpi'')) ''kpi'' (Rejects ''offline''))
        (fst (get example_registry ''kpi''))
       = Some (Inl (LoaderRejected ''offline''))
   \<and> outcome_of (loadFinished (snd (get example_registry ''kpi'')) ''kpi''
                   (Resolves (Some [(''helper'', Falsy)])))
        (fst (get example_registry ''kpi''))
       = Some (Inl (NoWidgetClass ''kpi''))
   \<and> is_LoadError (NoWidgetClass ''kpi'')"
proof -
  let ?ops = "[Register ''kpi'' \<lparr> rc_loader = 0, rc_name = None, rc_category = None,
                 rc_defaultSize = None, rc_priority = None \<rparr>, Get ''kpi'']"
  have h: "has example_registry ''kpi''" "\<not> isLoaded example_registry ''kpi''"
    by (simp_all add: example_registry_has)
  have w: "loadWidget ''kpi'' (Rejects ''offline'') = Inl (LoaderRejected ''offline'')"
    "loadWidget ''kpi'' (Resolves (Some [(''helper'', Falsy)])) = Inl (NoWidgetClass ''kpi'')"
    by (simp_all add: loadWidget_def js_or_def module_prop_def first_value_def)
  have r: "\<not> (\<exists>op \<in> set ?ops. registers ''gauge'' op)" "\<exists>op \<in> set ?ops. registers ''kpi'' op"
    by simp_all
  show ?thesis
    using h w r get_error_cases [of ?ops "''gauge''" example_registry "Rejects ''offline''"]
      get_error_cases [of ?ops "''kpi''" example_registry "Rejects ''offline''"]
      get_error_cases [of ?ops "''kpi''" example_registry "Resolves (Some [(''helper'', Falsy)])"]
    by simp
qed

section \<open>DragDropManager: proofs\<close>

lemma updateDrag_pending: "rafId d \<noteq> None \<Longrightarrow> updateDrag d cx cy = d"
  by (simp add: updateDrag_def)

lemma pointerMoves_pending: "rafId d \<noteq> None \<Longrightarrow> pointerMoves d moves = d"
  unfolding pointerMoves_def
  by (induction moves) (auto simp: updateDrag_pending)

lemma pointerMoves_Cons:
  "pointerMoves d ((cx, cy) # moves) = pointerMoves (updateDrag d cx cy) moves"
  by (simp add: pointerMoves_def)

lemma example_drag_state:
  "example_drag = \<lparr> d_stateManager = newStateManager, isDragging = True,
     dragWidget = Some ''w1'', dragElement = Some example_element, startPos = (0, 0),
     currentPos = (0, 0), offset = (10, 10), rafId = None, gridSize = (96, 96),
     frameCount = 0, elementTransform = None, placeholderPos = (0, 0),
     containerRect = \<lparr> r_left = 0, r_top = 0, r_width = 1136, r_height = 800 \<rparr>,
     frameQueue = [], nextRafHandle = 1 \<rparr>"
  by (simp add: example_drag_def startDrag_def calculateGridSize_def newDragDropManager_def
      example_element_def grid_gap_def grid_columns_def grid_rowHeight_def Let_def)

lemma example_cells:
  "gridCell example_drag (snapPos example_drag example_element 106 106) = (1, 1)"
  "gridCell example_drag (snapPos example_drag example_element 298 202) = (3, 2)"
  by (simp_all add: example_drag_state gridCell_def snapPos_def example_element_def Let_def)

text \<open>
  C2, as the code has it. During a drag with no frame callback pending, any non-empty
  sequence of pointer moves followed by one animation frame has the effect of the frame
  callback for the first move of the sequence (the grid cell size being positive, as
  \<^verbatim>\<open>_calculateGridSize\<close> makes it): the frame counter, which counts the
  ephemeral writes, grows by one, and the ephemeral entry of the dragged widget is the
  grid cell computed from the coordinates of the first move. The later moves of the
  sequence return at the pending-handle check and leave no trace.
\<close>

theorem frame_coalescing_first_move:
  assumes "isDragging d" "dragElement d = Some el" "dragWidget d = Some w"
    "rafId d = None" "frameQueue d = []"
    and "0 < fst (gridSize d)" "0 < snd (gridSize d)"
  shows "animationFrame (pointerMoves d ((cx, cy) # moves))
           = (frameCallback d cx cy)\<lparr>nextRafHandle := Suc (nextRafHandle d)\<rparr>
    \<and> frameCount (animationFrame (pointerMoves d ((cx, cy) # moves))) = Suc (frameCount d)
    \<and> map_of (ephemeralState
                (d_stateManager (animationFrame (pointerMoves d ((cx, cy) # moves))))) w
        = Some (xy_state (fst (gridCell d (snapPos d el cx cy)))
                  (snd (gridCell d (snapPos d el cx cy))))"
proof -
  let ?d1 = "updateDrag d cx cy"
  have u: "?d1 = d\<lparr>rafId := Some (nextRafHandle d),
             frameQueue := [(nextRafHandle d, cx, cy)],
             nextRafHandle := Suc (nextRafHandle d)\<rparr>"
    using assms by (simp add: updateDrag_def)
  have p: "pointerMoves d ((cx, cy) # moves) = ?d1"
    unfolding pointerMoves_Cons by (rule pointerMoves_pending) (simp add: u)
  have a: "animationFrame ?d1 = (frameCallback d cx cy)\<lparr>nextRafHandle := Suc (nextRafHandle d)\<rparr>"
    unfolding u using assms
    by (simp add: animationFrame_def frameCallback_def Let_def snapPos_def gridCell_def)
  have f: "frameCount (frameCallback d cx cy) = Suc (frameCount d)"
    using assms by (simp add: frameCallback_def Let_def)
  have e: "map_of (ephemeralState (d_stateManager (frameCallback d cx cy))) w
        = Some (xy_state (fst (gridCell d (snapPos d el cx cy)))
                  (snd (gridCell d (snapPos d el cx cy))))"
    using assms
    by (simp add: frameCallback_def Let_def setWidgetState_def update_conv' gridCell_def
        snapPos_def)
  show ?thesis unfolding p a using f e by simp
qed

theorem frame_coalescing_first_move_witness:
  "isDragging example_drag \<and> dragElement example_drag = Some example_element
   \<and> dragWidget example_drag = Some ''w1'' \<and> rafId example_drag = None
   \<and> frameQueue example_drag = [] \<and> gridSize example_drag = (96, 96)
   \<and> frameCount (animationFrame (pointerMoves example_drag [(106, 106), (202, 106), (298, 202)]))
       = 1
   \<and> map_of (ephemeralState (d_stateManager
        (animationFrame (pointerMoves example_drag [(106, 106), (202, 106), (298, 202)])))) ''w1''
       = Some (xy_state 1 1)"
proof -
  have h: "isDragging example_drag" "dragElement example_drag = Some example_element"
    "dragWidget example_drag = Some ''w1''" "rafId example_drag = None"
    "frameQueue example_drag = []"
    "0 < fst (gridSize example_drag)" "0 < snd (gridSize example_drag)"
    by (simp_all add: example_drag_state)
  have c: "frameCount example_drag = 0" "gridSize example_drag = (96, 96)"
    by (simp_all add: example_drag_state)
  note t = frame_coalescing_first_move [OF h, of 106 106 "[(202, 106), (298, 202)]",
      THEN conjunct2]
  show ?thesis
    using h c t by (simp add: example_cells)
qed

text \<open>
  C2, as stated, fails: of the two moves (106, 106) and (298, 202) that arrive before the
  frame, the single ephemeral write holds the cell (1, 1) of the first, whereas the
  coordinates of the last move give the cell (3, 2).
\<close>

theorem frame_coalescing_last_move_counterexample:
  "getCurrentPosition
     (d_stateManager (animationFrame (pointerMoves example_drag [(106, 106), (298, 202)])))
     ''w1'' = Some (Some 1, Some 1)
   \<and> gridCell example_drag (snapPos example_drag example_element 298 202) = (3, 2)
   \<and> frameCount (animationFrame (pointerMoves example_drag [(106, 106), (298, 202)])) = 1"
proof -
  have c: "gridCell example_drag (snapPos example_drag example_element 298 202) = (3, 2)"
    by (rule example_cells)
  have p: "pointerMoves example_drag [(106, 106), (298, 202)] =
      example_drag\<lparr>rafId := Some 1, frameQueue := [(1, 106, 106)], nextRafHandle := 2\<rparr>"
    by (simp add: pointerMoves_def updateDrag_def example_drag_state)
  have a: "getCurrentPosition
     (d_stateManager (animationFrame
        (example_drag\<lparr>rafId := Some 1, frameQueue := [(1, 106, 106)], nextRafHandle := 2\<rparr>)))
     ''w1'' = Some (Some 1, Some 1)"
    by (simp add: animationFrame_def frameCallback_def example_drag_state gridCell_def
        snapPos_def example_element_def Let_def getCurrentPosition_def setWidgetState_def
        newStateManager_def xy_state_def)
  have n: "frameCount (animationFrame
        (example_drag\<lparr>rafId := Some 1, frameQueue := [(1, 106, 106)], nextRafHandle := 2\<rparr>))
      = 1"
    by (simp add: animationFrame_def frameCallback_def example_drag_state Let_def)
  show ?thesis
    unfolding p using a c n by simp
qed

section \<open>LayoutManager: proofs\<close>

lemma selectBreakpoint_nonneg: "0 \<le> w \<Longrightarrow> selectBreakpoint w = ''xs''"
  by (simp add: selectBreakpoint_def grid_breakpoints_def)

text \<open>
  C3, at the container width 1500. The loop of \<^verbatim>\<open>_updateGridMetrics\<close> lets every
  matching entry of the table overwrite the earlier ones, and the table lists the
  breakpoints by falling threshold with \<^verbatim>\<open>xs\<close> (threshold 0) last: the breakpoint
  selected is \<^verbatim>\<open>xs\<close> with 4 columns, while the breakpoint with the largest threshold
  that 1500 reaches is \<^verbatim>\<open>xl\<close> with 12 columns.
\<close>

theorem breakpoint_at_1500:
  "currentBreakpoint (updateGridMetrics example_layout) = Some ''xs''
   \<and> map_option gm_columns (gridMetrics (updateGridMetrics example_layout)) = Some 4
   \<and> spec_breakpoint (containerOffsetWidth example_layout) = Some (''xl'', 1400, 12)"
  by (simp add: updateGridMetrics_def example_layout_def selectBreakpoint_def
      breakpointColumns_def spec_breakpoint_def grid_breakpoints_def Let_def)




































lemma merge_x_state: "merge_state s (x_state n) = s\<lparr>w_x := Some n\<rparr>"
  by (simp add: merge_state_def x_state_def override_def)

lemma reflowWidget_layout:
  assumes "map_of (layoutState sm) k = Some s"
  shows "map_of (layoutState (reflowWidget columns sm (k, s)))
           = (map_of (layoutState sm))(k \<mapsto> reflowed columns s)"
  using assms
  by (auto simp: reflowWidget_def reflowed_def setWidgetState_def scheduleSave_def Let_def
      update_conv' merge_x_state split: option.splits)

lemma reflow_fold:
  "distinct (map fst entries) \<Longrightarrow>
   (\<And>k s. (k, s) \<in> set entries \<Longrightarrow> map_of (layoutState sm) k = Some s) \<Longrightarrow>
   map_of (layoutState (foldl (reflowWidget columns) sm entries)) k =
     (case map_of entries k of
        Some s \<Rightarrow> Some (reflowed columns s)
      | None \<Rightarrow> map_of (layoutState sm) k)"
proof (induction entries arbitrary: sm)
  case Nil
  then show ?case by simp
next
  case (Cons e entries)
  obtain k0 s0 where e: "e = (k0, s0)" by (cases e)
  have m0: "map_of (layoutState sm) k0 = Some s0" using Cons.prems(2) e by simp
  note step = reflowWidget_layout [OF m0, of columns]
  have d: "distinct (map fst entries)" and nk: "k0 \<notin> fst ` set entries"
    using Cons.prems(1) e by auto
  have pre: "map_of (layoutState (reflowWidget columns sm (k0, s0))) k' = Some s'"
    if "(k', s') \<in> set entries" for k' s'
  proof -
    from that nk have "k' \<noteq> k0" by force
    then show ?thesis using Cons.prems(2) [of k' s'] that by (simp add: step)
  qed
  have nk': "map_of entries k0 = None" using nk by (simp add: map_of_eq_None_iff)
  show ?case
    using Cons.IH [of "reflowWidget columns sm (k0, s0)", OF d pre] nk'
    by (auto simp: e step split: option.splits)
qed

lemma reflowLayout_state:
  assumes "distinct (map fst (layoutState (lm_stateManager lm)))" "gridMetrics lm = Some gm"
  shows "getWidgetState (lm_stateManager (reflowLayout lm)) k =
         map_option (reflowed (gm_columns gm)) (getWidgetState (lm_stateManager lm) k)"
proof -
  have "map_of (layoutState (foldl (reflowWidget (gm_columns gm)) (lm_stateManager lm)
            (layoutState (lm_stateManager lm)))) k =
     (case map_of (layoutState (lm_stateManager lm)) k of
        Some s \<Rightarrow> Some (reflowed (gm_columns gm) s)
      | None \<Rightarrow> map_of (layoutState (lm_stateManager lm)) k)"
    using assms(1) by (intro reflow_fold) auto
  then show ?thesis
    using assms(2)
    by (simp add: reflowLayout_def getAllWidgetStates_def getWidgetState_def split: option.splits)
qed

text \<open>
  C7, as the code has it. In a store whose persistent map has pairwise distinct keys,
  \<^verbatim>\<open>_reflowLayout\<close>
  with grid metrics of \<open>columns\<close> columns turns the state \<open>s\<close> of every widget whose
  right edge \<open>x + width\<close> exceeds \<open>columns\<close> into \<open>s\<close> with \<open>x\<close> set to
  \<open>max 0 (columns - width)\<close> and every other field (type, y, width, height, data,
  visible) as before. The new \<open>x\<close> is at least 0; the widget fits the columns when its
  width does; and the new \<open>x\<close> is not larger than a former \<open>x\<close> that was not negative.
\<close>

theorem reflow_clamps_x:
  assumes "distinct (map fst (layoutState (lm_stateManager lm)))" "gridMetrics lm = Some gm"
    and "getWidgetState (lm_stateManager lm) k = Some s"
    and "w_x s = Some x" "w_width s = Some width" "x + width > gm_columns gm"
  shows "getWidgetState (lm_stateManager (reflowLayout lm)) k
           = Some (s\<lparr>w_x := Some (max 0 (gm_columns gm - width))\<rparr>)
    \<and> 0 \<le> max 0 (gm_columns gm - width)
    \<and> (width \<le> gm_columns gm \<longrightarrow> max 0 (gm_columns gm - width) + width \<le> gm_columns gm)
    \<and> (0 \<le> x \<longrightarrow> max 0 (gm_columns gm - width) \<le> x)"
  using reflowLayout_state [OF assms(1,2), of k] assms(3-)
  by (auto simp: reflowed_def)

theorem reflow_clamps_x_witness:
  "distinct (map fst (layoutState (lm_stateManager example_reflow_layout)))
   \<and> map_option gm_columns (gridMetrics example_reflow_layout) = Some 6
   \<and> map_option (\<lambda>s. (w_type s, w_x s, w_y s, w_width s, w_height s))
        (getWidgetState (lm_stateManager example_reflow_layout) ''w1'')
       = Some (Some ''gauge'', Some 10, Some 0, Some 4, Some 3)
   \<and> (10::int) + 4 > 6
   \<and> map_option (\<lambda>s. (w_type s, w_x s, w_y s, w_width s, w_height s))
        (getWidgetState (lm_stateManager (reflowLayout example_reflow_layout)) ''w1'')
       = Some (Some ''gauge'', Some 2, Some 0, Some 4, Some 3)"
proof -
  let ?s = "\<lparr> w_type = Some ''gauge'', w_x = Some 10, w_y = Some 0, w_width = Some 4,
      w_height = Some 3, w_data = Some [], w_visible = Some True \<rparr>"
  let ?gm = "\<lparr> gm_columns = 6, gm_columnWidth = 310 / 3, gm_rowHeight = 80,
       gm_gap = 16, gm_containerWidth = 700 \<rparr>"
  have l: "layoutState (lm_stateManager example_reflow_layout) = [(''w1'', ?s)]"
    by (simp add: example_reflow_layout_def addWidget_def newStateManager_def
        notifyGlobalSubscribers_def scheduleSave_def nullish_def Let_def)
  have h: "distinct (map fst (layoutState (lm_stateManager example_reflow_layout)))"
    "gridMetrics example_reflow_layout = Some ?gm"
    "getWidgetState (lm_stateManager example_reflow_layout) ''w1'' = Some ?s"
    "w_x ?s = Some 10" "w_width ?s = Some 4" "10 + 4 > gm_columns ?gm"
    by (simp_all add: l getWidgetState_def) (simp add: example_reflow_layout_def)
  show ?thesis
    using h reflow_clamps_x [OF h] by simp
qed

text \<open>
  C7, as stated, fails at two widgets under four columns. The widget of width 6 at
  x = 0 has its right edge beyond the fourth column and keeps x = 0: x is not reduced,
  and it is not at most columns - width = -2. The widget of width 8 at x = -3 has its
  right edge at 5 and ends with x = 0: x grows.
\<close>

theorem reflow_clamp_counterexample:
  "getWidgetState (lm_stateManager example_narrow_layout) ''w1''
     = Some \<lparr> w_type = Some ''bar-chart'', w_x = Some 0, w_y = Some 0, w_width = Some 6,
              w_height = Some 3, w_data = Some [], w_visible = Some True \<rparr>
   \<and> getWidgetState (lm_stateManager (reflowLayout example_narrow_layout)) ''w1''
     = Some \<lparr> w_type = Some ''bar-chart'', w_x = Some 0, w_y = Some 0, w_width = Some 6,
              w_height = Some 3, w_data = Some [], w_visible = Some True \<rparr>
   \<and> getWidgetState (lm_stateManager example_narrow_layout) ''w2''
     = Some \<lparr> w_type = Some ''line-chart'', w_x = Some (- 3), w_y = Some 3, w_width = Some 8,
              w_height = Some 2, w_data = Some [], w_visible = Some True \<rparr>
   \<and> getWidgetState (lm_stateManager (reflowLayout example_narrow_layout)) ''w2''
     = Some \<lparr> w_type = Some ''line-chart'', w_x = Some 0, w_y = Some 3, w_width = Some 8,
              w_height = Some 2, w_data = Some [], w_visible = Some True \<rparr>"
proof -
  have l: "layoutState (lm_stateManager example_narrow_layout) =
     [(''w1'', \<lparr> w_type = Some ''bar-chart'', w_x = Some 0, w_y = Some 0, w_width = Some 6,
              w_height = Some 3, w_data = Some [], w_visible = Some True \<rparr>),
      (''w2'', \<lparr> w_type = Some ''line-chart'', w_x = Some (- 3), w_y = Some 3,
              w_width = Some 8, w_height = Some 2, w_data = Some [],
              w_visible = Some True \<rparr>)]"
    by (simp add: example_narrow_layout_def addWidget_def newStateManager_def
        notifyGlobalSubscribers_def scheduleSave_def nullish_def Let_def)
  have d: "distinct (map fst (layoutState (lm_stateManager example_narrow_layout)))"
    by (simp add: l)
  have g: "gridMetrics example_narrow_layout
      = Some \<lparr> gm_columns = 4, gm_columnWidth = 113, gm_rowHeight = 80,
               gm_gap = 16, gm_containerWidth = 500 \<rparr>"
    by (simp add: example_narrow_layout_def)
  note r = reflowLayout_state [OF d g]
  show ?thesis
    unfolding r by (simp add: getWidgetState_def l reflowed_def)
qed

end
